theory Spec2Isabelle
  imports Main
begin

section \<open>Documents, selections and syntax nodes\<close>

text \<open>
  Offsets are JavaScript numbers holding integers; they are modelled as \<open>int\<close>.
  A document is a \<open>string\<close>, one \<open>char\<close> for each UTF-16 code unit of the editor's text.

  A selection range of the editor has an anchor and a head; \<open>from\<close> is the smaller and
  \<open>to\<close> the larger of the two. \<open>view.state.selection\<close> exposes the list \<open>ranges\<close> and
  the primary range \<open>main\<close> (one of \<open>ranges\<close>).
\<close>

record SelectionRange =
  anchor :: int
  head :: int

definition sel_from :: "SelectionRange \<Rightarrow> int" where
  "sel_from r = min (anchor r) (head r)"

definition sel_to :: "SelectionRange \<Rightarrow> int" where
  "sel_to r = max (anchor r) (head r)"

record EditorSelection =
  ranges :: "SelectionRange list"
  main :: SelectionRange

record SyntaxNode =
  node_name :: string
  node_from :: int
  node_to :: int

text \<open>
  The editor view as \<open>createLatexDecorations\<close> reads it: the document text, the selection,
  the visible ranges, and the syntax tree. The tree belongs to the parser library; it is
  taken as the function \<open>tree_iterate\<close> that gives, for a range, the nodes which
  \<open>syntaxTree(view.state).iterate({from, to, enter})\<close> passes to \<open>enter\<close>, in order.
\<close>

record EditorView =
  doc :: string
  selection :: EditorSelection
  visibleRanges :: "(int \<times> int) list"
  tree_iterate :: "int \<Rightarrow> int \<Rightarrow> SyntaxNode list"

text \<open>
  Modelled from the spec: the host's "document text slice by offset range"
  (\<open>view.state.doc.sliceString(from, to)\<close>, a function of the editor library). Both bounds
  are clipped to the document, and an end before the start gives the empty string.
\<close>

definition sliceString :: "string \<Rightarrow> int \<Rightarrow> int \<Rightarrow> string" where
  "sliceString d f t =
     (let len = int (length d);
          f' = max 0 (min len f);
          t' = max f' (min len t)
      in take (nat (t' - f')) (drop (nat f') d))"

section \<open>Widgets and decorations\<close>

text \<open>
  The two widget classes have the same fields: the formula, the client and the recorded
  click target \<open>pos\<close>. The client is an opaque object of the host.
\<close>

datatype 'c widget =
    InlineLatexWidget (formula: string) (client: 'c) (pos: int)
  | DisplayLatexWidget (formula: string) (client: 'c) (pos: int)

text \<open>\<open>eq\<close> of each class compares the formulas only.\<close>

definition InlineLatexWidget_eq :: "'c widget \<Rightarrow> 'c widget \<Rightarrow> bool" where
  "InlineLatexWidget_eq this other = (formula other = formula this)"

definition DisplayLatexWidget_eq :: "'c widget \<Rightarrow> 'c widget \<Rightarrow> bool" where
  "DisplayLatexWidget_eq this other = (formula other = formula this)"

text \<open>\<open>this.eq(other)\<close>: the method of the receiver's class runs.\<close>

fun widget_eq :: "'c widget \<Rightarrow> 'c widget \<Rightarrow> bool" where
  "widget_eq (InlineLatexWidget f c p) other = InlineLatexWidget_eq (InlineLatexWidget f c p) other"
| "widget_eq (DisplayLatexWidget f c p) other = DisplayLatexWidget_eq (DisplayLatexWidget f c p) other"

fun is_inline :: "'c widget \<Rightarrow> bool" where
  "is_inline (InlineLatexWidget f c p) = True"
| "is_inline (DisplayLatexWidget f c p) = False"

text \<open>
  \<open>Decoration.replace({widget, inclusive, widgetBuffer})\<close> and \<open>deco.range(from, to)\<close>:
  a replace decoration placed on a range. \<open>widgetBuffer\<close> is \<open>None\<close> where the source
  does not give it.
\<close>

record 'c Decoration =
  deco_widget :: "'c widget"
  inclusive :: bool
  widgetBuffer :: "bool option"

record 'c DecoRange =
  deco_from :: int
  deco_to :: int
  deco_value :: "'c Decoration"

text \<open>
  Modelled from the spec: the decoration set is "an ordered collection";
  \<open>Decoration.set(widgets, true)\<close> of the editor library sorts the ranges by their start
  (a stable sort; all the decorations built here have the same start side).
\<close>

definition Decoration_set :: "'c DecoRange list \<Rightarrow> 'c DecoRange list" where
  "Decoration_set ws = sort_key deco_from ws"

section \<open>The console\<close>

datatype level = Log | Error

datatype 'e message =
    NodeInSelection int int int int
  | FoundDisplayLatex string
  | FailedToExtract string
  | CreatedDecorations nat nat
  | KaTeXRenderingError 'e
  | InitializingPlugin
  | ConstructorCalled
  | DragOperationEnded
  | UpdatingDueToSelection
  | UpdatingDueToSelectionNotDragging
  | UpdatingDecorations

type_synonym 'e console = "(level \<times> 'e message) list"

section \<open>The display pattern\<close>

text \<open>
  \<open>/^\$\$(.*?)\$\$$/s.exec(text)\<close>: anchored at the start of the text; two dollar signs;
  a lazy group in which, by the \<open>s\<close> flag, the dot matches every code unit, line breaks
  too; two dollar signs; the end of the text. The lazy group first tries to stop, and takes
  one more code unit only when the rest is not the two closing dollar signs followed by
  the end. The result is the group's text, or \<open>None\<close> for JavaScript's \<open>null\<close>.
\<close>

fun lazy_group :: "string \<Rightarrow> string \<Rightarrow> string option" where
  "lazy_group acc [] = None"
| "lazy_group acc (c # cs) =
     (if c # cs = ''$$'' then Some (rev acc) else lazy_group (c # acc) cs)"

definition display_exec :: "string \<Rightarrow> string option" where
  "display_exec text =
     (case text of
        a # b # rest \<Rightarrow> if a = CHR ''$'' \<and> b = CHR ''$'' then lazy_group [] rest else None
      | _ \<Rightarrow> None)"

section \<open>createLatexDecorations\<close>

text \<open>
  \<open>isNodeInSelection\<close>: the loop over the selection ranges returns at the first range
  that overlaps the node, and logs it.
\<close>

fun isNodeInSelection :: "SelectionRange list \<Rightarrow> int \<Rightarrow> int \<Rightarrow> bool \<times> 'e console" where
  "isNodeInSelection [] nodeFrom nodeTo = (False, [])"
| "isNodeInSelection (r # rs) nodeFrom nodeTo =
     (if sel_from r < nodeTo \<and> sel_to r > nodeFrom
      then (True, [(Log, NodeInSelection nodeFrom nodeTo (sel_from r) (sel_to r))])
      else isNodeInSelection rs nodeFrom nodeTo)"

text \<open>The variables the \<open>enter\<close> callback updates.\<close>

record ('c, 'e) builder =
  widgets :: "'c DecoRange list"
  inlineCount :: nat
  displayCount :: nat
  console :: "'e console"

definition enter :: "EditorView \<Rightarrow> 'c \<Rightarrow> SyntaxNode \<Rightarrow> ('c, 'e) builder \<Rightarrow> ('c, 'e) builder" where
  "enter view cl node b =
     (let selections = ranges (selection view);
          cursorPos = head (main (selection view))
      in
      if node_name node = ''InlineLatex'' then
        (let nodeFrom = node_from node;
             nodeTo = node_to node;
             formula = sliceString (doc view) (nodeFrom + 1) (nodeTo - 1);
             isCursorInside = (cursorPos \<ge> nodeFrom \<and> cursorPos \<le> nodeTo);
             (isInSelection, out) = isNodeInSelection selections nodeFrom nodeTo;
             b1 = b\<lparr>console := console b @ out\<rparr>
         in if \<not> isCursorInside \<and> \<not> isInSelection
            then b1\<lparr>inlineCount := inlineCount b1 + 1,
                    widgets := widgets b1 @
                      [\<lparr>deco_from = nodeFrom, deco_to = nodeTo,
                        deco_value = \<lparr>deco_widget = InlineLatexWidget formula cl (nodeFrom + 1),
                                      inclusive = True, widgetBuffer = None\<rparr>\<rparr>]\<rparr>
            else b1)
      else if node_name node = ''DisplayLatex'' then
        (let nodeFrom = node_from node;
             nodeTo = node_to node;
             isCursorInside = (cursorPos \<ge> nodeFrom \<and> cursorPos \<le> nodeTo);
             (isInSelection, out) = isNodeInSelection selections nodeFrom nodeTo;
             b1 = b\<lparr>console := console b @ out\<rparr>
         in if \<not> isCursorInside \<and> \<not> isInSelection
            then
              (let b2 = b1\<lparr>displayCount := displayCount b1 + 1\<rparr>;
                   text = sliceString (doc view) nodeFrom nodeTo
               in case display_exec text of
                    Some match1 \<Rightarrow>
                      let formula = match1 in
                      b2\<lparr>console := console b2 @ [(Log, FoundDisplayLatex formula)],
                         widgets := widgets b2 @
                           [\<lparr>deco_from = nodeFrom, deco_to = nodeTo,
                             deco_value = \<lparr>deco_widget = DisplayLatexWidget formula cl (nodeFrom + 2),
                                           inclusive = True, widgetBuffer = Some False\<rparr>\<rparr>]\<rparr>
                  | None \<Rightarrow> b2\<lparr>console := console b2 @ [(Error, FailedToExtract text)]\<rparr>)
            else b1)
      else b)"

text \<open>The nodes visited: for each visible range in turn, the nodes the tree gives.\<close>

definition visited :: "EditorView \<Rightarrow> SyntaxNode list" where
  "visited view = concat (map (\<lambda>(f, t). tree_iterate view f t) (visibleRanges view))"

definition run_builder :: "EditorView \<Rightarrow> 'c \<Rightarrow> ('c, 'e) builder" where
  "run_builder view cl =
     foldl (\<lambda>b (f, t). foldl (\<lambda>b node. enter view cl node b) b (tree_iterate view f t))
       \<lparr>widgets = [], inlineCount = 0, displayCount = 0, console = []\<rparr>
       (visibleRanges view)"

text \<open>The result: the decoration set, and what was written to the console.\<close>

definition createLatexDecorations :: "EditorView \<Rightarrow> 'c \<Rightarrow> 'c DecoRange list \<times> 'e console" where
  "createLatexDecorations view cl =
     (let b = run_builder view cl
      in (Decoration_set (widgets b),
          console b @ [(Log, CreatedDecorations (inlineCount b) (displayCount b))]))"

section \<open>Rendering a widget\<close>

text \<open>
  The part of the DOM that \<open>toDOM\<close> builds: an element has a tag, its class tokens, its
  children and the event types for which a listener was added.
\<close>

datatype element =
    Element (tagName: string) (classList: "string list") (childNodes: "dom_node list")
      (eventListeners: "string list")
and dom_node = TextNode string | ElementNode element

definition createElement :: "string \<Rightarrow> element" where
  "createElement tag = Element tag [] [] []"

text \<open>\<open>el.className = c\<close>, for a \<open>c\<close> that is one token.\<close>

definition set_className :: "string \<Rightarrow> element \<Rightarrow> element" where
  "set_className c el = Element (tagName el) [c] (childNodes el) (eventListeners el)"

text \<open>\<open>el.textContent = s\<close> removes every child and, for a non-empty \<open>s\<close>, adds one text node.\<close>

definition set_textContent :: "string \<Rightarrow> element \<Rightarrow> element" where
  "set_textContent s el =
     Element (tagName el) (classList el) (if s = [] then [] else [TextNode s]) (eventListeners el)"

definition classList_add :: "string \<Rightarrow> element \<Rightarrow> element" where
  "classList_add c el =
     (if c \<in> set (classList el) then el
      else Element (tagName el) (classList el @ [c]) (childNodes el) (eventListeners el))"

definition appendChild :: "element \<Rightarrow> element \<Rightarrow> element" where
  "appendChild child el =
     Element (tagName el) (classList el) (childNodes el @ [ElementNode child]) (eventListeners el)"

definition addEventListener :: "string \<Rightarrow> element \<Rightarrow> element" where
  "addEventListener ty el =
     Element (tagName el) (classList el) (childNodes el) (eventListeners el @ [ty])"

text \<open>
  The typesetting library is a parameter: \<open>katex formula target options\<close> gives the target
  element as the call leaves it, and the exception when the call throws. Whatever the call
  wrote into the target before it threw is still there.
\<close>

record katex_options =
  displayMode :: bool
  throwOnError :: bool
  errorColor :: string

type_synonym 'e katex = "string \<Rightarrow> element \<Rightarrow> katex_options \<Rightarrow> element \<times> 'e option"

text \<open>
  \<open>toDOM\<close> gives \<open>Inr\<close> of the element and of what it wrote to the console, or \<open>Inl\<close> of
  an exception that leaves it. The click listener is recorded by its event type; what the
  listener does when the widget is clicked is not part of this model.
\<close>

definition InlineLatexWidget_toDOM :: "'e katex \<Rightarrow> 'c widget \<Rightarrow> 'e + element \<times> 'e console" where
  "InlineLatexWidget_toDOM katex this =
     (let wrapper = createElement ''span'';
          wrapper = set_className ''sb-latex-inline'' wrapper;
          (wrapper, out) =
            (case katex (formula this) wrapper
                    \<lparr>displayMode = False, throwOnError = False, errorColor = ''#f44336''\<rparr> of
               (rendered, None) \<Rightarrow> (rendered, [])
             | (partial, Some error) \<Rightarrow>
                 (classList_add ''sb-latex-error''
                    (set_textContent (''$'' @ formula this @ ''$'') partial),
                  [(Error, KaTeXRenderingError error)]));
          wrapper = addEventListener ''click'' wrapper
      in Inr (wrapper, out))"

definition DisplayLatexWidget_toDOM :: "'e katex \<Rightarrow> 'c widget \<Rightarrow> 'e + element \<times> 'e console" where
  "DisplayLatexWidget_toDOM katex this =
     (let wrapper = createElement ''div'';
          wrapper = set_className ''sb-latex-display'' wrapper;
          (wrapper, out) =
            (let katexOutput = createElement ''div'';
                 katexOutput = set_className ''sb-latex-katex-output'' katexOutput
             in case katex (formula this) katexOutput
                    \<lparr>displayMode = True, throwOnError = False, errorColor = ''#f44336''\<rparr> of
               (rendered, None) \<Rightarrow> (appendChild rendered wrapper, [])
             | (partial, Some error) \<Rightarrow>
                 (classList_add ''sb-latex-error''
                    (set_textContent (''$$'' @ formula this @ ''$$'') wrapper),
                  [(Error, KaTeXRenderingError error)]));
          wrapper = addEventListener ''click'' wrapper
      in Inr (wrapper, out))"

fun toDOM :: "'e katex \<Rightarrow> 'c widget \<Rightarrow> 'e + element \<times> 'e console" where
  "toDOM katex (InlineLatexWidget f c p) = InlineLatexWidget_toDOM katex (InlineLatexWidget f c p)"
| "toDOM katex (DisplayLatexWidget f c p) = DisplayLatexWidget_toDOM katex (DisplayLatexWidget f c p)"

section \<open>Events of the editor and of the page\<close>

text \<open>
  A \<open>ViewUpdate\<close> as the plugins read it: the three flags, the comparison
  \<open>syntaxTree(update.startState) !== syntaxTree(update.state)\<close> as the flag
  \<open>treeChanged\<close>, and the view after the update.
\<close>

record ViewUpdate =
  docChanged :: bool
  viewportChanged :: bool
  selectionSet :: bool
  treeChanged :: bool
  update_view :: EditorView

text \<open>
  Modelled from the spec: the editor's update cycle is an interface of the host. For an
  empty transaction (\<open>view.dispatch({})\<close>, \<open>view.update([])\<close>) the update it hands to
  the plugin says that nothing of the document, the selection, the viewport or the tree
  changed.
\<close>

definition empty_update :: "EditorView \<Rightarrow> ViewUpdate" where
  "empty_update view =
     \<lparr>docChanged = False, viewportChanged = False, selectionSet = False, treeChanged = False,
      update_view = view\<rparr>"

text \<open>
  What happens to a plugin: pointer and touch events (\<open>MouseMove\<close> carries \<open>e.buttons\<close>),
  a pending timer with the given id firing, an update of the view, and the disposal of the
  plugin. Time is not modelled: a pending timer fires at a moment the environment chooses.
\<close>

datatype event =
    MouseDown
  | MouseMove nat
  | MouseUp
  | MouseLeave
  | TouchStart
  | TouchEnd
  | TimerFires nat
  | ViewUpdated ViewUpdate
  | Destroy

text \<open>
  Timers: \<open>setTimeout\<close> gives a fresh positive id and records the pending timer with its
  delay; \<open>clearTimeout\<close> removes the pending timer of that id, if there is one.
\<close>

type_synonym timers = "(nat \<times> nat) list"

definition clearTimeout :: "nat \<Rightarrow> timers \<Rightarrow> timers" where
  "clearTimeout i ts = filter (\<lambda>t. fst t \<noteq> i) ts"

section \<open>The plugin of src/web/cm_plugins/latex.ts\<close>

text \<open>
  \<open>isDragging\<close> and \<open>dragEndTimeout\<close> are variables of the closure of \<open>latexPlugin\<close>;
  the state below is that of one view that uses the plugin, and its console starts with the
  line that \<open>latexPlugin\<close> itself logs. \<open>lp_timers\<close> are the pending
  timers that \<open>handleDragEnd\<close> set, \<open>lp_nextTimer\<close> the id the next \<open>setTimeout\<close> gives.
\<close>

record ('c, 'e) latex_plugin =
  lp_decorations :: "'c DecoRange list"
  lp_isDragging :: bool
  lp_dragEndTimeout :: "nat option"
  lp_timers :: timers
  lp_nextTimer :: nat
  lp_view :: EditorView
  lp_console :: "'e console"

text \<open>\<open>if (dragEndTimeout)\<close>: \<open>null\<close> and \<open>0\<close> are false.\<close>

fun truthy :: "nat option \<Rightarrow> bool" where
  "truthy None = False"
| "truthy (Some i) = (i \<noteq> 0)"

definition handleDragEnd :: "('c, 'e) latex_plugin \<Rightarrow> ('c, 'e) latex_plugin" where
  "handleDragEnd s =
     (let s1 = (if truthy (lp_dragEndTimeout s)
                then s\<lparr>lp_timers := clearTimeout (the (lp_dragEndTimeout s)) (lp_timers s)\<rparr>
                else s);
          i = lp_nextTimer s1
      in s1\<lparr>lp_timers := lp_timers s1 @ [(i, 200)],
            lp_nextTimer := i + 1,
            lp_dragEndTimeout := Some i\<rparr>)"

definition latex_update :: "'c \<Rightarrow> ViewUpdate \<Rightarrow> ('c, 'e) latex_plugin \<Rightarrow> ('c, 'e) latex_plugin" where
  "latex_update cl u s =
     (if lp_isDragging s \<and> selectionSet u \<and> \<not> docChanged u then s
      else if docChanged u \<or> viewportChanged u \<or> selectionSet u \<or> treeChanged u then
        (let out1 = (if selectionSet u then [(Log, UpdatingDueToSelection)] else []);
             out2 = [(Log, UpdatingDecorations)];
             (decos, out3) = createLatexDecorations (update_view u) cl
         in s\<lparr>lp_decorations := decos, lp_console := lp_console s @ out1 @ out2 @ out3\<rparr>)
      else s)"

text \<open>The callback of the timer that \<open>handleDragEnd\<close> sets.\<close>

definition dragEndCallback :: "'c \<Rightarrow> ('c, 'e) latex_plugin \<Rightarrow> ('c, 'e) latex_plugin" where
  "dragEndCallback cl s =
     (let s1 = s\<lparr>lp_console := lp_console s @ [(Log, DragOperationEnded)]\<rparr>;
          s2 = s1\<lparr>lp_isDragging := False\<rparr>
      in latex_update cl (empty_update (lp_view s2)) s2)"

definition latex_constructor :: "'c \<Rightarrow> EditorView \<Rightarrow> ('c, 'e) latex_plugin" where
  "latex_constructor cl view =
     (let (decos, out) = createLatexDecorations view cl
      in \<lparr>lp_decorations = decos, lp_isDragging = False, lp_dragEndTimeout = None,
          lp_timers = [], lp_nextTimer = 1, lp_view = view,
          lp_console = [(Log, InitializingPlugin), (Log, ConstructorCalled)] @ out\<rparr>)"

text \<open>
  One event. The listeners are on \<open>view.dom\<close> for \<open>mousedown\<close>, \<open>mousemove\<close> and
  \<open>mouseup\<close>, and in the plugin's \<open>eventHandlers\<close> for \<open>mouseleave\<close>; the file has no
  touch listener and no \<open>destroy\<close>.
\<close>

fun latex_step :: "'c \<Rightarrow> ('c, 'e) latex_plugin \<Rightarrow> event \<Rightarrow> ('c, 'e) latex_plugin" where
  "latex_step cl s MouseDown = s\<lparr>lp_isDragging := False\<rparr>"
| "latex_step cl s (MouseMove buttons) = (if buttons \<noteq> 0 then s\<lparr>lp_isDragging := True\<rparr> else s)"
| "latex_step cl s MouseUp = (if lp_isDragging s then handleDragEnd s else s)"
| "latex_step cl s MouseLeave = (if lp_isDragging s then handleDragEnd s else s)"
| "latex_step cl s (TimerFires i) =
     (if i \<in> fst ` set (lp_timers s)
      then dragEndCallback cl (s\<lparr>lp_timers := clearTimeout i (lp_timers s)\<rparr>)
      else s)"
| "latex_step cl s (ViewUpdated u) = latex_update cl u (s\<lparr>lp_view := update_view u\<rparr>)"
| "latex_step cl s TouchStart = s"
| "latex_step cl s TouchEnd = s"
| "latex_step cl s Destroy = s"

definition latex_run :: "'c \<Rightarrow> ('c, 'e) latex_plugin \<Rightarrow> event list \<Rightarrow> ('c, 'e) latex_plugin" where
  "latex_run cl s es = foldl (latex_step cl) s es"

section \<open>The plugin of src/unnamed/part_000\<close>

text \<open>
  The four handlers that the constructor adds to \<open>document\<close>. \<open>p0_listeners\<close> are the
  listeners of \<open>document\<close> that come from this plugin, \<open>p0_cleanup\<close> the listeners that the
  stored \<open>cleanup\<close> function removes (\<open>None\<close> while \<open>cleanup\<close> is undefined), \<open>p0_timers\<close>
  the pending timers set by \<open>handleMouseUp\<close> and \<open>handleTouchEnd\<close>.
\<close>

datatype handler = HandleMouseDown | HandleMouseUp | HandleTouchStart | HandleTouchEnd

record ('c, 'e) part0_plugin =
  p0_decorations :: "'c DecoRange list"
  p0_isDragging :: bool
  p0_listeners :: "(string \<times> handler) list"
  p0_cleanup :: "(string \<times> handler) list option"
  p0_timers :: timers
  p0_nextTimer :: nat
  p0_view :: EditorView
  p0_console :: "'e console"

definition removeEventListener ::
  "string \<times> handler \<Rightarrow> (string \<times> handler) list \<Rightarrow> (string \<times> handler) list" where
  "removeEventListener l ls = filter (\<lambda>x. x \<noteq> l) ls"

definition part0_update :: "'c \<Rightarrow> ViewUpdate \<Rightarrow> ('c, 'e) part0_plugin \<Rightarrow> ('c, 'e) part0_plugin" where
  "part0_update cl u s =
     (if docChanged u \<or> viewportChanged u \<or> (selectionSet u \<and> \<not> p0_isDragging s) \<or> treeChanged u
      then
        (let out1 = (if selectionSet u \<and> \<not> p0_isDragging s
                     then [(Log, UpdatingDueToSelectionNotDragging)] else []);
             out2 = [(Log, UpdatingDecorations)];
             (decos, out3) = createLatexDecorations (update_view u) cl
         in s\<lparr>p0_decorations := decos, p0_console := p0_console s @ out1 @ out2 @ out3\<rparr>)
      else s)"

text \<open>
  The callback of the timers: it rebuilds from the view as it is then, and calls
  \<open>view.update([])\<close>, which reaches the plugin as an empty update.
\<close>

definition rebuildCallback :: "'c \<Rightarrow> ('c, 'e) part0_plugin \<Rightarrow> ('c, 'e) part0_plugin" where
  "rebuildCallback cl s =
     (let (decos, out) = createLatexDecorations (p0_view s) cl;
          s1 = s\<lparr>p0_decorations := decos, p0_console := p0_console s @ out\<rparr>
      in part0_update cl (empty_update (p0_view s1)) s1)"

definition handleMouseDown :: "('c, 'e) part0_plugin \<Rightarrow> ('c, 'e) part0_plugin" where
  "handleMouseDown s = s\<lparr>p0_isDragging := True\<rparr>"

definition handleMouseUp :: "('c, 'e) part0_plugin \<Rightarrow> ('c, 'e) part0_plugin" where
  "handleMouseUp s =
     (if p0_isDragging s
      then (let i = p0_nextTimer s
            in s\<lparr>p0_isDragging := False,
                 p0_timers := p0_timers s @ [(i, 50)],
                 p0_nextTimer := i + 1\<rparr>)
      else s)"

definition handleTouchStart :: "('c, 'e) part0_plugin \<Rightarrow> ('c, 'e) part0_plugin" where
  "handleTouchStart s = s\<lparr>p0_isDragging := True\<rparr>"

definition handleTouchEnd :: "('c, 'e) part0_plugin \<Rightarrow> ('c, 'e) part0_plugin" where
  "handleTouchEnd s =
     (if p0_isDragging s
      then (let i = p0_nextTimer s
            in s\<lparr>p0_isDragging := False,
                 p0_timers := p0_timers s @ [(i, 50)],
                 p0_nextTimer := i + 1\<rparr>)
      else s)"

fun run_handler :: "handler \<Rightarrow> ('c, 'e) part0_plugin \<Rightarrow> ('c, 'e) part0_plugin" where
  "run_handler HandleMouseDown s = handleMouseDown s"
| "run_handler HandleMouseUp s = handleMouseUp s"
| "run_handler HandleTouchStart s = handleTouchStart s"
| "run_handler HandleTouchEnd s = handleTouchEnd s"

text \<open>An event of \<open>document\<close> runs the listeners registered for its type, in their order.\<close>

definition dispatchEvent :: "string \<Rightarrow> ('c, 'e) part0_plugin \<Rightarrow> ('c, 'e) part0_plugin" where
  "dispatchEvent ty s =
     foldl (\<lambda>s h. run_handler h s) s (map snd (filter (\<lambda>l. fst l = ty) (p0_listeners s)))"

definition part0_constructor :: "'c \<Rightarrow> EditorView \<Rightarrow> ('c, 'e) part0_plugin" where
  "part0_constructor cl view =
     (let (decos, out) = createLatexDecorations view cl;
          installed = [(''mousedown'', HandleMouseDown), (''mouseup'', HandleMouseUp),
                       (''touchstart'', HandleTouchStart), (''touchend'', HandleTouchEnd)]
      in \<lparr>p0_decorations = decos, p0_isDragging = False, p0_listeners = installed,
          p0_cleanup = Some installed, p0_timers = [], p0_nextTimer = 1, p0_view = view,
          p0_console = [(Log, InitializingPlugin), (Log, ConstructorCalled)] @ out\<rparr>)"

definition destroy :: "('c, 'e) part0_plugin \<Rightarrow> ('c, 'e) part0_plugin" where
  "destroy s =
     (case p0_cleanup s of
        Some installed \<Rightarrow>
          s\<lparr>p0_listeners := foldl (\<lambda>ls l. removeEventListener l ls) (p0_listeners s) installed\<rparr>
      | None \<Rightarrow> s)"

fun part0_step :: "'c \<Rightarrow> ('c, 'e) part0_plugin \<Rightarrow> event \<Rightarrow> ('c, 'e) part0_plugin" where
  "part0_step cl s MouseDown = dispatchEvent ''mousedown'' s"
| "part0_step cl s (MouseMove buttons) = dispatchEvent ''mousemove'' s"
| "part0_step cl s MouseUp = dispatchEvent ''mouseup'' s"
| "part0_step cl s MouseLeave = dispatchEvent ''mouseleave'' s"
| "part0_step cl s TouchStart = dispatchEvent ''touchstart'' s"
| "part0_step cl s TouchEnd = dispatchEvent ''touchend'' s"
| "part0_step cl s (TimerFires i) =
     (if i \<in> fst ` set (p0_timers s)
      then rebuildCallback cl (s\<lparr>p0_timers := clearTimeout i (p0_timers s)\<rparr>)
      else s)"
| "part0_step cl s (ViewUpdated u) = part0_update cl u (s\<lparr>p0_view := update_view u\<rparr>)"
| "part0_step cl s Destroy = destroy s"

definition part0_run :: "'c \<Rightarrow> ('c, 'e) part0_plugin \<Rightarrow> event list \<Rightarrow> ('c, 'e) part0_plugin" where
  "part0_run cl s es = foldl (part0_step cl) s es"

text \<open>
  Every call of \<open>createLatexDecorations\<close> ends with one \<open>CreatedDecorations\<close> line on the
  console, so the rebuilds are counted there.
\<close>

fun is_rebuild :: "level \<times> 'e message \<Rightarrow> bool" where
  "is_rebuild (l, CreatedDecorations i d) = True"
| "is_rebuild (l, m) = False"

definition rebuilds :: "'e console \<Rightarrow> nat" where
  "rebuilds c = length (filter is_rebuild c)"

section \<open>Example inputs\<close>

text \<open>
  A view with one cursor at \<open>c\<close> and nothing else selected, the whole document visible,
  and a tree whose iteration over a range gives the nodes of \<open>ns\<close> that touch the range.
\<close>

definition cursor_view :: "string \<Rightarrow> SyntaxNode list \<Rightarrow> int \<Rightarrow> EditorView" where
  "cursor_view d ns c =
     \<lparr>doc = d,
      selection = \<lparr>ranges = [\<lparr>anchor = c, head = c\<rparr>], main = \<lparr>anchor = c, head = c\<rparr>\<rparr>,
      visibleRanges = [(0, int (length d))],
      tree_iterate = (\<lambda>f t. filter (\<lambda>n. node_from n \<le> t \<and> node_to n \<ge> f) ns)\<rparr>"

text \<open>The document of the inline scenario, and the formula in it.\<close>

definition euler_doc :: string where
  "euler_doc = ''Euler's identity: $e^{i'' @ [CHR 0x5C] @ ''pi}+1=0$.''"

definition euler_formula :: string where
  "euler_formula = ''e^{i'' @ [CHR 0x5C] @ ''pi}+1=0''"

text \<open>The block of the display scenario, and the formula in it.\<close>

definition integral_block :: string where
  "integral_block =
     ''$$'' @ [CHR 0x0A, CHR 0x5C] @ ''int_0^1 x'' @ [CHR 0x5C] @ '',dx'' @ [CHR 0x0A] @ ''$$''"

definition integral_formula :: string where
  "integral_formula = [CHR 0x0A, CHR 0x5C] @ ''int_0^1 x'' @ [CHR 0x5C] @ '',dx'' @ [CHR 0x0A]"

text \<open>A view with the primary cursor at \<open>c\<close> and a second cursor at \<open>p\<close>.\<close>

definition two_cursor_view :: "string \<Rightarrow> int \<Rightarrow> int \<Rightarrow> EditorView" where
  "two_cursor_view d c p =
     \<lparr>doc = d,
      selection = \<lparr>ranges = [\<lparr>anchor = c, head = c\<rparr>, \<lparr>anchor = p, head = p\<rparr>],
                   main = \<lparr>anchor = c, head = c\<rparr>\<rparr>,
      visibleRanges = [(0, int (length d))],
      tree_iterate = (\<lambda>f t. [])\<rparr>"

text \<open>
  A view as \<open>cursor_view\<close>, with the visible ranges given: the tree yields a node once for
  each visible range that the node touches.
\<close>

definition ranges_view :: "string \<Rightarrow> SyntaxNode list \<Rightarrow> int \<Rightarrow> (int \<times> int) list \<Rightarrow> EditorView" where
  "ranges_view d ns c vrs =
     \<lparr>doc = d,
      selection = \<lparr>ranges = [\<lparr>anchor = c, head = c\<rparr>], main = \<lparr>anchor = c, head = c\<rparr>\<rparr>,
      visibleRanges = vrs,
      tree_iterate = (\<lambda>f t. filter (\<lambda>n. node_from n \<le> t \<and> node_to n \<ge> f) ns)\<rparr>"

text \<open>A typesetting call that writes into its target and then throws on the formula \<open>{\<close>.\<close>

definition throwing_katex :: "string katex" where
  "throwing_katex f target opts =
     (appendChild (createElement ''span'') target,
      if f = ''{'' then Some ''ParseError'' else None)"

text \<open>
  A typesetting call that honours \<open>throwOnError\<close>: on the formula \<open>{\<close> it throws when the
  option is set, and otherwise writes its own error output into the target and returns.
\<close>

definition lenient_katex :: "string katex" where
  "lenient_katex f target opts =
     (if f = ''{'' then
        (if throwOnError opts then (target, Some ''ParseError'')
         else (appendChild (set_className ''katex-error'' (createElement ''span'')) target, None))
      else (appendChild (set_className ''katex'' (createElement ''span'')) target, None))"

section \<open>Notions used in the properties of the plugins\<close>

text \<open>The listeners that the constructor of part_000 adds to \<open>document\<close>.\<close>

definition installed_listeners :: "(string \<times> handler) list" where
  "installed_listeners =
     [(''mousedown'', HandleMouseDown), (''mouseup'', HandleMouseUp),
      (''touchstart'', HandleTouchStart), (''touchend'', HandleTouchEnd)]"

text \<open>The pointer and touch events.\<close>

fun is_pointer_event :: "event \<Rightarrow> bool" where
  "is_pointer_event MouseDown = True"
| "is_pointer_event (MouseMove b) = True"
| "is_pointer_event MouseUp = True"
| "is_pointer_event MouseLeave = True"
| "is_pointer_event TouchStart = True"
| "is_pointer_event TouchEnd = True"
| "is_pointer_event (TimerFires i) = False"
| "is_pointer_event (ViewUpdated u) = False"
| "is_pointer_event Destroy = False"

text \<open>What holds of the plugin of part_000 after its constructor, whatever happens to it:
  \<open>cleanup\<close> removes the four listeners, these are all on \<open>document\<close> or all removed,
  and the ids of the pending timers are below the next id.\<close>

definition part0_inv :: "('c, 'e) part0_plugin \<Rightarrow> bool" where
  "part0_inv s \<longleftrightarrow>
     p0_cleanup s = Some installed_listeners \<and>
     (p0_listeners s = installed_listeners \<or> p0_listeners s = []) \<and>
     (\<forall>t\<in>set (p0_timers s). fst t < p0_nextTimer s)"

text \<open>What holds of the plugin of latex.ts after its constructor, whatever happens to it:
  either no timer is pending, or one is, and \<open>dragEndTimeout\<close> holds its id.\<close>

definition latex_inv :: "('c, 'e) latex_plugin \<Rightarrow> bool" where
  "latex_inv t \<longleftrightarrow>
     lp_nextTimer t \<noteq> 0 \<and>
     (lp_timers t = [] \<or>
      (\<exists>i. lp_timers t = [(i, 200)] \<and> lp_dragEndTimeout t = Some i \<and> i \<noteq> 0))"

section \<open>Example inputs for the plugins\<close>

text \<open>A view with one inline formula and the cursor at the start of the document.\<close>

definition drag_view :: EditorView where
  "drag_view = cursor_view ''ab $x$ cd'' [\<lparr>node_name = ''InlineLatex'', node_from = 3, node_to = 6\<rparr>] 0"


section \<open>Properties of the decoration builder\<close>

lemma lazy_group_Some:
  "lazy_group acc s = Some g \<longleftrightarrow> (\<exists>m. s = m @ ''$$'' \<and> g = rev acc @ m)"
proof (induction s arbitrary: acc)
  case Nil
  then show ?case by simp
next
  case (Cons c cs)
  show ?case
  proof (cases "c # cs = ''$$''")
    case True
    then show ?thesis by (auto simp: Cons_eq_append_conv)
  next
    case False
    then show ?thesis
      by (auto simp: Cons.IH Cons_eq_append_conv)
  qed
qed

lemma display_exec_Some:
  "display_exec text = Some g \<longleftrightarrow> text = ''$$'' @ g @ ''$$''"
  by (auto simp: display_exec_def lazy_group_Some split: list.splits)


lemma widgets_enter_append:
  "widgets (enter view cl n (b :: ('c, 'e) builder)) =
     widgets b @ widgets (enter view cl n \<lparr>widgets = [], inlineCount = i0, displayCount = d0, console = (c0 :: 'e console)\<rparr>)"
  by (auto simp: enter_def Let_def split: prod.splits option.splits)

lemma isNodeInSelection_eq:
  "isNodeInSelection rs f t = (x, out) \<Longrightarrow> x = (\<exists>r\<in>set rs. sel_from r < t \<and> sel_to r > f)"
  by (induction rs) (auto split: if_splits)

lemma enter_inline_widgets:
  assumes "node_name n = ''InlineLatex''"
  shows "widgets (enter view cl n b) =
     widgets b @
     (if (node_from n \<le> head (main (selection view)) \<and> head (main (selection view)) \<le> node_to n)
         \<or> (\<exists>r\<in>set (ranges (selection view)). sel_from r < node_to n \<and> sel_to r > node_from n)
      then []
      else [\<lparr>deco_from = node_from n, deco_to = node_to n,
             deco_value = \<lparr>deco_widget =
                 InlineLatexWidget (sliceString (doc view) (node_from n + 1) (node_to n - 1)) cl (node_from n + 1),
               inclusive = True, widgetBuffer = None\<rparr>\<rparr>])"
  using assms
  by (auto simp: enter_def Let_def split: prod.splits dest: isNodeInSelection_eq)

lemma enter_display_widgets:
  assumes "node_name n = ''DisplayLatex''"
  shows "widgets (enter view cl n b) =
     widgets b @
     (if (node_from n \<le> head (main (selection view)) \<and> head (main (selection view)) \<le> node_to n)
         \<or> (\<exists>r\<in>set (ranges (selection view)). sel_from r < node_to n \<and> sel_to r > node_from n)
      then []
      else (case display_exec (sliceString (doc view) (node_from n) (node_to n)) of
              None \<Rightarrow> []
            | Some f \<Rightarrow>
               [\<lparr>deco_from = node_from n, deco_to = node_to n,
                 deco_value = \<lparr>deco_widget = DisplayLatexWidget f cl (node_from n + 2),
                    inclusive = True, widgetBuffer = Some False\<rparr>\<rparr>]))"
  using assms
  by (auto simp: enter_def Let_def split: prod.splits option.splits dest: isNodeInSelection_eq)

lemma enter_other_widgets:
  assumes "node_name n \<noteq> ''InlineLatex''" "node_name n \<noteq> ''DisplayLatex''"
  shows "enter view cl n b = b"
  using assms by (simp add: enter_def)

lemma widgets_foldl_enter:
  "widgets (foldl (\<lambda>b node. enter view cl node b) (b :: ('c, 'e) builder) ns) =
     widgets b @ concat (map (\<lambda>n. widgets (enter view cl n
        \<lparr>widgets = [], inlineCount = 0, displayCount = 0, console = ([] :: 'e console)\<rparr>)) ns)"
proof (induction ns arbitrary: b)
  case Nil
  then show ?case by simp
next
  case (Cons n ns)
  show ?case
    by (simp add: Cons.IH widgets_enter_append [of view cl n b 0 0 "[]"])
qed

lemma widgets_foldl_ranges:
  "widgets (foldl (\<lambda>b (f, t). foldl (\<lambda>b node. enter view cl node b) b (tree_iterate view f t))
       (b :: ('c, 'e) builder) rs) =
     widgets b @ concat (map (\<lambda>n. widgets (enter view cl n
        \<lparr>widgets = [], inlineCount = 0, displayCount = 0, console = ([] :: 'e console)\<rparr>))
        (concat (map (\<lambda>(f, t). tree_iterate view f t) rs)))"
proof (induction rs arbitrary: b)
  case Nil
  then show ?case by simp
next
  case (Cons r rs)
  obtain f t where r: "r = (f, t)" by (cases r)
  show ?case
    by (simp add: r Cons.IH widgets_foldl_enter [of view cl b])
qed

lemma widgets_run_builder:
  "widgets (run_builder view cl :: ('c, 'e) builder) =
     concat (map (\<lambda>n. widgets (enter view cl n
        \<lparr>widgets = [], inlineCount = 0, displayCount = 0, console = ([] :: 'e console)\<rparr>))
        (visited view))"
  by (simp add: run_builder_def visited_def widgets_foldl_ranges)

lemma fst_createLatexDecorations:
  "fst (createLatexDecorations view cl :: 'c DecoRange list \<times> 'e console) =
     Decoration_set (widgets (run_builder view cl :: ('c, 'e) builder))"
  by (simp add: createLatexDecorations_def Let_def)

lemma length_filter_Decoration_set:
  "length (filter P (Decoration_set ws)) = length (filter P ws)"
  by (simp add: Decoration_set_def filter_sort)

lemma length_filter_concat_map:
  "length (filter P (concat (map g ns))) = sum_list (map (\<lambda>n. length (filter P (g n))) ns)"
  by (induction ns) auto

lemma sum_list_filter_const:
  fixes h :: "'a \<Rightarrow> nat"
  assumes "\<And>m. Q m \<Longrightarrow> h m = c" "\<And>m. \<not> Q m \<Longrightarrow> h m = 0"
  shows "sum_list (map h ns) = c * length (filter Q ns)"
  by (induction ns) (auto simp: assms)

text \<open>
  Claim C1, as amended. A formula span is an \<open>InlineLatex\<close> node, or a \<open>DisplayLatex\<close>
  node whose text is \<open>$$f$$\<close>. It is live exactly when the primary cursor lies in
  \<open>[from, to]\<close>, both ends included, or some selection range has \<open>selFrom < to\<close> and
  \<open>selTo > from\<close>. In the set that \<open>createLatexDecorations\<close> returns, a live span has no
  decoration, and a span that is not live has one decoration for each time the iteration
  over the visible ranges yields it, which is at least once.
\<close>

theorem decoration_count_per_visit:
  fixes view :: EditorView and cl :: 'c and n :: SyntaxNode
  assumes span: "node_name n = ''InlineLatex'' \<or>
      (node_name n = ''DisplayLatex'' \<and>
       (\<exists>f. sliceString (doc view) (node_from n) (node_to n) = ''$$'' @ f @ ''$$''))"
    and yielded: "n \<in> set (visited view)"
  shows "length (filter (\<lambda>d. deco_from d = node_from n \<and> deco_to d = node_to n)
            (fst (createLatexDecorations view cl :: 'c DecoRange list \<times> 'e console))) =
         (if (node_from n \<le> head (main (selection view)) \<and> head (main (selection view)) \<le> node_to n)
             \<or> (\<exists>r\<in>set (ranges (selection view)). sel_from r < node_to n \<and> sel_to r > node_from n)
          then 0
          else length (filter (\<lambda>m. node_from m = node_from n \<and> node_to m = node_to n \<and>
                  (node_name m = ''InlineLatex'' \<or>
                   (node_name m = ''DisplayLatex'' \<and>
                    (\<exists>f. sliceString (doc view) (node_from m) (node_to m) = ''$$'' @ f @ ''$$''))))
                 (visited view)))
       \<and> 0 < length (filter (\<lambda>m. node_from m = node_from n \<and> node_to m = node_to n \<and>
                  (node_name m = ''InlineLatex'' \<or>
                   (node_name m = ''DisplayLatex'' \<and>
                    (\<exists>f. sliceString (doc view) (node_from m) (node_to m) = ''$$'' @ f @ ''$$''))))
                 (visited view))"
proof -
  let ?P = "\<lambda>d :: 'c DecoRange. deco_from d = node_from n \<and> deco_to d = node_to n"
  let ?g = "\<lambda>m. widgets (enter view cl m
        \<lparr>widgets = [], inlineCount = 0, displayCount = 0, console = ([] :: 'e console)\<rparr>)"
  let ?Q = "\<lambda>m. node_from m = node_from n \<and> node_to m = node_to n \<and>
                  (node_name m = ''InlineLatex'' \<or>
                   (node_name m = ''DisplayLatex'' \<and>
                    (\<exists>f. sliceString (doc view) (node_from m) (node_to m) = ''$$'' @ f @ ''$$'')))"
  let ?live = "(node_from n \<le> head (main (selection view)) \<and> head (main (selection view)) \<le> node_to n)
             \<or> (\<exists>r\<in>set (ranges (selection view)). sel_from r < node_to n \<and> sel_to r > node_from n)"
  let ?c = "if ?live then 0 else (1::nat)"
  let ?h = "\<lambda>m. length (filter ?P (?g m))"
  have zero: "?h m = 0" if "\<not> ?Q m" for m
  proof (cases "node_name m = ''InlineLatex''")
    case True
    with that show ?thesis by (auto simp: enter_inline_widgets)
  next
    case False
    note notinline = this
    show ?thesis
    proof (cases "node_name m = ''DisplayLatex''")
      case True
      show ?thesis
      proof (cases "display_exec (sliceString (doc view) (node_from m) (node_to m))")
        case None
        with True show ?thesis by (simp add: enter_display_widgets)
      next
        case (Some f)
        then have "sliceString (doc view) (node_from m) (node_to m) = ''$$'' @ f @ ''$$''"
          by (simp add: display_exec_Some)
        with that True have "\<not> (node_from m = node_from n \<and> node_to m = node_to n)" by blast
        with True Some show ?thesis by (auto simp: enter_display_widgets)
      qed
    next
      case False
      with notinline show ?thesis by (simp add: enter_other_widgets)
    qed
  qed
  have one: "?h m = ?c" if "?Q m" for m
  proof (cases "node_name m = ''InlineLatex''")
    case True
    with that show ?thesis by (simp add: enter_inline_widgets)
  next
    case False
    with that obtain f where d: "node_name m = ''DisplayLatex''"
      and f: "sliceString (doc view) (node_from m) (node_to m) = ''$$'' @ f @ ''$$''"
      by blast
    from f have "display_exec (sliceString (doc view) (node_from m) (node_to m)) = Some f"
      by (simp add: display_exec_Some)
    with that d show ?thesis by (simp add: enter_display_widgets)
  qed
  have "length (filter ?P (fst (createLatexDecorations view cl :: 'c DecoRange list \<times> 'e console))) =
        sum_list (map ?h (visited view))"
    by (simp only: fst_createLatexDecorations length_filter_Decoration_set widgets_run_builder
          length_filter_concat_map)
  also have "\<dots> = ?c * length (filter ?Q (visited view))"
    using one zero by (rule sum_list_filter_const)
  finally have prod: "length (filter ?P (fst (createLatexDecorations view cl :: 'c DecoRange list \<times> 'e console))) =
      ?c * length (filter ?Q (visited view))" .
  define k where "k = length (filter ?P (fst (createLatexDecorations view cl :: 'c DecoRange list \<times> 'e console)))"
  define v where "v = length (filter ?Q (visited view))"
  define live where "live \<longleftrightarrow> ?live"
  from prod have "k = (if live then 0 else 1) * v"
    unfolding k_def v_def live_def .
  then have count: "k = (if live then 0 else v)"
    by (cases live) simp_all
  from span yielded have "n \<in> set (filter ?Q (visited view))" by simp
  then have pos: "0 < v" unfolding v_def by (rule length_pos_if_in_set)
  from count pos have "k = (if live then 0 else v) \<and> 0 < v" by (rule conjI)
  then show ?thesis
    unfolding k_def v_def live_def .
qed

theorem decoration_count_per_visit_witness:
  "length (filter (\<lambda>d. deco_from d = 18 \<and> deco_to d = 32)
     (fst (createLatexDecorations
        (cursor_view euler_doc
           [\<lparr>node_name = ''Paragraph'', node_from = 0, node_to = 33\<rparr>,
            \<lparr>node_name = ''InlineLatex'', node_from = 18, node_to = 32\<rparr>] 0) ()
        :: unit DecoRange list \<times> unit console))) = 1
   \<and> length (filter (\<lambda>d. deco_from d = 18 \<and> deco_to d = 32)
     (fst (createLatexDecorations
        (cursor_view euler_doc
           [\<lparr>node_name = ''Paragraph'', node_from = 0, node_to = 33\<rparr>,
            \<lparr>node_name = ''InlineLatex'', node_from = 18, node_to = 32\<rparr>] 32) ()
        :: unit DecoRange list \<times> unit console))) = 0
   \<and> length (filter (\<lambda>d. deco_from d = 18 \<and> deco_to d = 32)
     (fst (createLatexDecorations
        (ranges_view euler_doc
           [\<lparr>node_name = ''Paragraph'', node_from = 0, node_to = 33\<rparr>,
            \<lparr>node_name = ''InlineLatex'', node_from = 18, node_to = 32\<rparr>] 0 [(0, 20), (25, 33)]) ()
        :: unit DecoRange list \<times> unit console))) = 2"
proof -
  let ?p = "\<lparr>node_name = ''Paragraph'', node_from = 0, node_to = 33\<rparr>"
  let ?n = "\<lparr>node_name = ''InlineLatex'', node_from = 18, node_to = 32\<rparr>"
  have nm: "node_name ?n = ''InlineLatex'' \<or>
      (node_name ?n = ''DisplayLatex'' \<and>
       (\<exists>f. sliceString (doc v) (node_from ?n) (node_to ?n) = ''$$'' @ f @ ''$$''))"
    for v :: EditorView
    by simp
  have v1: "visited (cursor_view euler_doc [?p, ?n] c) = [?p, ?n]" for c
    by (simp add: visited_def cursor_view_def euler_doc_def)
  have v2: "visited (ranges_view euler_doc [?p, ?n] 0 [(0, 20), (25, 33)]) = [?p, ?n, ?p, ?n]"
    by (simp add: visited_def ranges_view_def)
  have a: "length (filter (\<lambda>d. deco_from d = 18 \<and> deco_to d = 32)
     (fst (createLatexDecorations (cursor_view euler_doc [?p, ?n] 0) ()
        :: unit DecoRange list \<times> unit console))) = 1"
    using decoration_count_per_visit [where n = ?n and view = "cursor_view euler_doc [?p, ?n] 0"
        and cl = "()" and ?'e = unit, OF nm]
    by (simp add: v1) (simp add: cursor_view_def sel_from_def sel_to_def)
  have b: "length (filter (\<lambda>d. deco_from d = 18 \<and> deco_to d = 32)
     (fst (createLatexDecorations (cursor_view euler_doc [?p, ?n] 32) ()
        :: unit DecoRange list \<times> unit console))) = 0"
    using decoration_count_per_visit [where n = ?n and view = "cursor_view euler_doc [?p, ?n] 32"
        and cl = "()" and ?'e = unit, OF nm]
    by (simp add: v1) (simp add: cursor_view_def sel_from_def sel_to_def)
  have c: "length (filter (\<lambda>d. deco_from d = 18 \<and> deco_to d = 32)
     (fst (createLatexDecorations (ranges_view euler_doc [?p, ?n] 0 [(0, 20), (25, 33)]) ()
        :: unit DecoRange list \<times> unit console))) = 2"
    using decoration_count_per_visit [where n = ?n
        and view = "ranges_view euler_doc [?p, ?n] 0 [(0, 20), (25, 33)]"
        and cl = "()" and ?'e = unit, OF nm]
    by (simp add: v2) (simp add: ranges_view_def sel_from_def sel_to_def)
  from a b c show ?thesis by simp
qed

text \<open>
  A span that is not live and touches two visible ranges is yielded for both, and has two
  decorations.
\<close>

theorem two_visible_ranges_counterexample:
  "map deco_from (fst (createLatexDecorations
      (ranges_view euler_doc
         [\<lparr>node_name = ''Paragraph'', node_from = 0, node_to = 33\<rparr>,
          \<lparr>node_name = ''InlineLatex'', node_from = 18, node_to = 32\<rparr>] 0 [(0, 20), (25, 33)]) ()
      :: unit DecoRange list \<times> unit console)) = [18, 18]
   \<and> map deco_to (fst (createLatexDecorations
      (ranges_view euler_doc
         [\<lparr>node_name = ''Paragraph'', node_from = 0, node_to = 33\<rparr>,
          \<lparr>node_name = ''InlineLatex'', node_from = 18, node_to = 32\<rparr>] 0 [(0, 20), (25, 33)]) ()
      :: unit DecoRange list \<times> unit console)) = [32, 32]"
  by (simp add: createLatexDecorations_def run_builder_def ranges_view_def enter_def Let_def
      Decoration_set_def sel_from_def sel_to_def)

lemma isNodeInSelection_not_overlapping:
  "\<forall>r\<in>set rs. \<not> (sel_from r < t \<and> sel_to r > f) \<Longrightarrow> isNodeInSelection rs f t = (False, [])"
  by (induction rs) auto




lemma sliceString_nat:
  assumes "k \<le> j" "j \<le> length d"
  shows "sliceString d (int k) (int j) = take (j - k) (drop k d)"
proof -
  have "nat (int j - int k) = j - k" by arith
  with assms show ?thesis
    by (simp add: sliceString_def Let_def min_def max_def)
qed

lemma length_sliceString: "int (length (sliceString d f t)) \<le> max 0 (t - f)"
proof -
  define f' where "f' = max 0 (min (int (length d)) f)"
  define t' where "t' = max f' (min (int (length d)) t)"
  have "length (sliceString d f t) \<le> nat (t' - f')"
    by (simp add: sliceString_def Let_def f'_def t'_def)
  moreover have "t' - f' \<le> max 0 (t - f)"
    unfolding t'_def f'_def by arith
  ultimately show ?thesis by linarith
qed

lemma sliceString_strip:
  assumes "0 \<le> f" "f + 2 \<le> t" "t \<le> int (length d)"
  shows "sliceString d f t = (d ! nat f) # sliceString d (f + 1) (t - 1) @ [d ! nat (t - 1)]"
proof -
  define k where "k = nat f"
  define m where "m = nat (t - f - 2)"
  have f: "f = int k" and t: "t = int (k + m + 2)" using assms by (auto simp: k_def m_def)
  have len: "k + m + 2 \<le> length d" using assms(3) t by simp
  have f1: "f + 1 = int (k + 1)" and t1: "t - 1 = int (k + m + 1)" using f t by simp_all
  have a: "sliceString d f t = take (m + 2) (drop k d)"
    unfolding f t using len by (subst sliceString_nat) simp_all
  have b: "sliceString d (f + 1) (t - 1) = take m (drop (k + 1) d)"
    unfolding f1 t1 using len by (subst sliceString_nat) simp_all
  have c: "nat (t - 1) = k + m + 1" using t by simp
  have "take (m + 2) (drop k d) = d ! k # take (m + 1) (drop (k + 1) d)"
    using len by (simp add: Cons_nth_drop_Suc [symmetric])
  also have "take (m + 1) (drop (k + 1) d) = take m (drop (k + 1) d) @ [d ! (k + m + 1)]"
    using len by (simp add: take_Suc_conv_app_nth add.commute add.left_commute)
  finally show ?thesis using a b c by (simp add: k_def)
qed

text \<open>
  Claim C5, as amended. For an \<open>InlineLatex\<close> node that is not live, the widget's formula
  is the document slice \<open>(from+1, to-1)\<close>, with no further check; for a node inside the
  document that is the node's text without its first and its last code unit. In the
  scenario document the formula \<open>e^{i\pi}+1=0\<close> is that of the span \<open>[18,32)\<close>.
\<close>

theorem inline_formula_slice:
  fixes b :: "('c, 'e) builder"
  assumes "node_name n = ''InlineLatex''"
    and "\<not> (node_from n \<le> head (main (selection view)) \<and> head (main (selection view)) \<le> node_to n)"
    and "\<forall>r\<in>set (ranges (selection view)). \<not> (sel_from r < node_to n \<and> sel_to r > node_from n)"
  shows "enter view cl n b =
           b\<lparr>inlineCount := inlineCount b + 1,
             widgets := widgets b @
               [\<lparr>deco_from = node_from n, deco_to = node_to n,
                 deco_value = \<lparr>deco_widget =
                     InlineLatexWidget (sliceString (doc view) (node_from n + 1) (node_to n - 1)) cl
                       (node_from n + 1),
                   inclusive = True, widgetBuffer = None\<rparr>\<rparr>]\<rparr>
       \<and> (0 \<le> node_from n \<and> node_from n + 2 \<le> node_to n \<and> node_to n \<le> int (length (doc view)) \<longrightarrow>
            sliceString (doc view) (node_from n) (node_to n) =
              (doc view ! nat (node_from n)) #
                sliceString (doc view) (node_from n + 1) (node_to n - 1) @
                [doc view ! nat (node_to n - 1)])"
proof
  have s: "isNodeInSelection (ranges (selection view)) (node_from n) (node_to n) = (False, ([] :: 'e console))"
    using assms(3) by (rule isNodeInSelection_not_overlapping)
  from assms(1,2) s show "enter view cl n b =
           b\<lparr>inlineCount := inlineCount b + 1,
             widgets := widgets b @
               [\<lparr>deco_from = node_from n, deco_to = node_to n,
                 deco_value = \<lparr>deco_widget =
                     InlineLatexWidget (sliceString (doc view) (node_from n + 1) (node_to n - 1)) cl
                       (node_from n + 1),
                   inclusive = True, widgetBuffer = None\<rparr>\<rparr>]\<rparr>"
    by (simp add: enter_def Let_def)
next
  show "0 \<le> node_from n \<and> node_from n + 2 \<le> node_to n \<and> node_to n \<le> int (length (doc view)) \<longrightarrow>
            sliceString (doc view) (node_from n) (node_to n) =
              (doc view ! nat (node_from n)) #
                sliceString (doc view) (node_from n + 1) (node_to n - 1) @
                [doc view ! nat (node_to n - 1)]"
    by (simp add: sliceString_strip)
qed

theorem inline_formula_slice_witness:
  "createLatexDecorations
      (cursor_view euler_doc
         [\<lparr>node_name = ''Paragraph'', node_from = 0, node_to = 33\<rparr>,
          \<lparr>node_name = ''InlineLatex'', node_from = 18, node_to = 32\<rparr>] 0) () =
    ([\<lparr>deco_from = 18, deco_to = 32,
       deco_value = \<lparr>deco_widget = InlineLatexWidget euler_formula () 19,
                     inclusive = True, widgetBuffer = None\<rparr>\<rparr>],
     [(Log, CreatedDecorations 1 0)] :: unit console)"
proof -
  let ?p = "\<lparr>node_name = ''Paragraph'', node_from = 0, node_to = 33\<rparr>"
  let ?n = "\<lparr>node_name = ''InlineLatex'', node_from = 18, node_to = 32\<rparr>"
  let ?v = "cursor_view euler_doc [?p, ?n] 0"
  let ?b = "\<lparr>widgets = [], inlineCount = 0, displayCount = 0, console = ([] :: unit console)\<rparr>
              :: (unit, unit) builder"
  have nm: "node_name ?n = ''InlineLatex''" by simp
  have c: "\<not> (node_from ?n \<le> head (main (selection ?v)) \<and> head (main (selection ?v)) \<le> node_to ?n)"
    by (simp add: cursor_view_def)
  have r: "\<forall>r\<in>set (ranges (selection ?v)). \<not> (sel_from r < node_to ?n \<and> sel_to r > node_from ?n)"
    by (simp add: cursor_view_def sel_from_def sel_to_def)
  have sl: "sliceString (doc ?v) 19 31 = euler_formula"
    by (simp add: cursor_view_def sliceString_def euler_doc_def euler_formula_def)
  have e: "enter ?v () ?n ?b =
      \<lparr>widgets = [\<lparr>deco_from = 18, deco_to = 32,
                    deco_value = \<lparr>deco_widget = InlineLatexWidget euler_formula () 19,
                                  inclusive = True, widgetBuffer = None\<rparr>\<rparr>],
       inlineCount = 1, displayCount = 0, console = []\<rparr>"
    using inline_formula_slice [where n = ?n and view = ?v and cl = "()" and b = ?b, OF nm c r,
        THEN conjunct1]
    by (simp add: sl)
  have p: "enter ?v () ?p ?b = ?b"
    by (simp add: enter_other_widgets)
  have it: "tree_iterate ?v 0 (int (length euler_doc)) = [?p, ?n]"
    by (simp add: cursor_view_def euler_doc_def)
  have vr: "visibleRanges ?v = [(0, int (length euler_doc))]"
    by (simp add: cursor_view_def)
  have "run_builder ?v () =
      \<lparr>widgets = [\<lparr>deco_from = 18, deco_to = 32,
                    deco_value = \<lparr>deco_widget = InlineLatexWidget euler_formula () 19,
                                  inclusive = True, widgetBuffer = None\<rparr>\<rparr>],
       inlineCount = 1, displayCount = 0, console = ([] :: unit console)\<rparr>"
    unfolding run_builder_def vr by (simp add: it p e)
  then show ?thesis
    by (simp add: createLatexDecorations_def Decoration_set_def)
qed

text \<open>
  The span \<open>[19,32)\<close> of the scenario document starts after the opening delimiter: its
  text is \<open>e^{i\pi}+1=0$\<close>, and the widget built for it has the formula
  \<open>^{i\pi}+1=0\<close>. The text \<open>$e^{i\pi}+1=0$\<close> is the span \<open>[18,32)\<close>.
\<close>

theorem euler_span_19_counterexample:
  "map (formula \<circ> deco_widget \<circ> deco_value)
     (fst (createLatexDecorations
        (cursor_view euler_doc
           [\<lparr>node_name = ''Paragraph'', node_from = 0, node_to = 33\<rparr>,
            \<lparr>node_name = ''InlineLatex'', node_from = 19, node_to = 32\<rparr>] 0) ()
        :: unit DecoRange list \<times> unit console))
     = [''^{i'' @ [CHR 0x5C] @ ''pi}+1=0'']
   \<and> ''^{i'' @ [CHR 0x5C] @ ''pi}+1=0'' \<noteq> euler_formula
   \<and> sliceString euler_doc 19 32 = euler_formula @ ''$''
   \<and> sliceString euler_doc 18 32 = ''$'' @ euler_formula @ ''$''"
  by (simp add: createLatexDecorations_def run_builder_def cursor_view_def enter_def Let_def
      sliceString_def euler_doc_def euler_formula_def Decoration_set_def sel_from_def sel_to_def)

text \<open>
  Claim C7. The decoration of an inline span records the click target \<open>from+1\<close>, and that
  of a display span \<open>from+2\<close>. The decoration keeps the span's bounds, and the recorded
  target lies strictly between them: for a display span always, for an inline span when its
  text is \<open>$f$\<close>, the opening and the closing delimiter around the formula.
\<close>

theorem click_target_inside_span:
  fixes b :: "('c, 'e) builder"
  assumes "\<not> (node_from n \<le> head (main (selection view)) \<and> head (main (selection view)) \<le> node_to n)"
    and "\<forall>r\<in>set (ranges (selection view)). \<not> (sel_from r < node_to n \<and> sel_to r > node_from n)"
  shows "(node_name n = ''InlineLatex'' \<longrightarrow>
           (\<exists>d. widgets (enter view cl n b) = widgets b @ [d] \<and>
                deco_from d = node_from n \<and> deco_to d = node_to n \<and>
                pos (deco_widget (deco_value d)) = node_from n + 1 \<and>
                ((\<exists>f. sliceString (doc view) (node_from n) (node_to n) = ''$'' @ f @ ''$'') \<longrightarrow>
                   deco_from d < pos (deco_widget (deco_value d)) \<and>
                   pos (deco_widget (deco_value d)) < deco_to d)))
       \<and> (node_name n = ''DisplayLatex'' \<and>
          (\<exists>f. sliceString (doc view) (node_from n) (node_to n) = ''$$'' @ f @ ''$$'') \<longrightarrow>
           (\<exists>d. widgets (enter view cl n b) = widgets b @ [d] \<and>
                deco_from d = node_from n \<and> deco_to d = node_to n \<and>
                pos (deco_widget (deco_value d)) = node_from n + 2 \<and>
                deco_from d < pos (deco_widget (deco_value d)) \<and>
                pos (deco_widget (deco_value d)) < deco_to d))"
proof (intro conjI impI)
  assume nm: "node_name n = ''InlineLatex''"
  have len: "node_from n + 2 \<le> node_to n"
    if "sliceString (doc view) (node_from n) (node_to n) = ''$'' @ f @ ''$''" for f
    using length_sliceString [of "doc view" "node_from n" "node_to n"] that by simp
  from nm assms show "\<exists>d. widgets (enter view cl n b) = widgets b @ [d] \<and>
                deco_from d = node_from n \<and> deco_to d = node_to n \<and>
                pos (deco_widget (deco_value d)) = node_from n + 1 \<and>
                ((\<exists>f. sliceString (doc view) (node_from n) (node_to n) = ''$'' @ f @ ''$'') \<longrightarrow>
                   deco_from d < pos (deco_widget (deco_value d)) \<and>
                   pos (deco_widget (deco_value d)) < deco_to d)"
    using len by (auto simp: enter_inline_widgets)
next
  assume a: "node_name n = ''DisplayLatex'' \<and>
          (\<exists>f. sliceString (doc view) (node_from n) (node_to n) = ''$$'' @ f @ ''$$'')"
  then obtain f where f: "sliceString (doc view) (node_from n) (node_to n) = ''$$'' @ f @ ''$$''"
    by blast
  then have m: "display_exec (sliceString (doc view) (node_from n) (node_to n)) = Some f"
    by (simp add: display_exec_Some)
  have len: "node_from n + 4 \<le> node_to n"
    using length_sliceString [of "doc view" "node_from n" "node_to n"] f by simp
  from a assms m len show "\<exists>d. widgets (enter view cl n b) = widgets b @ [d] \<and>
                deco_from d = node_from n \<and> deco_to d = node_to n \<and>
                pos (deco_widget (deco_value d)) = node_from n + 2 \<and>
                deco_from d < pos (deco_widget (deco_value d)) \<and>
                pos (deco_widget (deco_value d)) < deco_to d"
    by (simp add: enter_display_widgets)
qed

theorem click_target_inside_span_witness:
  "(\<exists>d. widgets (enter (cursor_view euler_doc [] 0) ()
             \<lparr>node_name = ''InlineLatex'', node_from = 18, node_to = 32\<rparr>
             \<lparr>widgets = [], inlineCount = 0, displayCount = 0, console = ([] :: unit console)\<rparr>) = [d] \<and>
        deco_from d = 18 \<and> deco_to d = 32 \<and> pos (deco_widget (deco_value d)) = 19 \<and>
        deco_from d < pos (deco_widget (deco_value d)) \<and> pos (deco_widget (deco_value d)) < deco_to d)
   \<and> (\<exists>d. widgets (enter (cursor_view (''ab'' @ [CHR 0x0A] @ integral_block) [] 0) ()
             \<lparr>node_name = ''DisplayLatex'', node_from = 3, node_to = 23\<rparr>
             \<lparr>widgets = [], inlineCount = 0, displayCount = 0, console = ([] :: unit console)\<rparr>) = [d] \<and>
        deco_from d = 3 \<and> deco_to d = 23 \<and> pos (deco_widget (deco_value d)) = 5 \<and>
        deco_from d < pos (deco_widget (deco_value d)) \<and> pos (deco_widget (deco_value d)) < deco_to d)"
proof -
  let ?b = "\<lparr>widgets = [], inlineCount = 0, displayCount = 0, console = ([] :: unit console)\<rparr>
              :: (unit, unit) builder"
  let ?v1 = "cursor_view euler_doc [] 0"
  let ?n1 = "\<lparr>node_name = ''InlineLatex'', node_from = 18, node_to = 32\<rparr>"
  let ?v2 = "cursor_view (''ab'' @ [CHR 0x0A] @ integral_block) [] 0"
  let ?n2 = "\<lparr>node_name = ''DisplayLatex'', node_from = 3, node_to = 23\<rparr>"
  have c1: "\<not> (node_from ?n1 \<le> head (main (selection ?v1)) \<and> head (main (selection ?v1)) \<le> node_to ?n1)"
    and r1: "\<forall>r\<in>set (ranges (selection ?v1)). \<not> (sel_from r < node_to ?n1 \<and> sel_to r > node_from ?n1)"
    and c2: "\<not> (node_from ?n2 \<le> head (main (selection ?v2)) \<and> head (main (selection ?v2)) \<le> node_to ?n2)"
    and r2: "\<forall>r\<in>set (ranges (selection ?v2)). \<not> (sel_from r < node_to ?n2 \<and> sel_to r > node_from ?n2)"
    by (simp_all add: cursor_view_def sel_from_def sel_to_def)
  have s1: "\<exists>f. sliceString (doc ?v1) (node_from ?n1) (node_to ?n1) = ''$'' @ f @ ''$''"
    by (rule exI [of _ euler_formula])
       (simp add: cursor_view_def sliceString_def euler_doc_def euler_formula_def)
  have s2: "\<exists>f. sliceString (doc ?v2) (node_from ?n2) (node_to ?n2) = ''$$'' @ f @ ''$$''"
    by (rule exI [of _ integral_formula])
       (simp add: cursor_view_def sliceString_def integral_block_def integral_formula_def)
  have nm1: "node_name ?n1 = ''InlineLatex''" and nm2: "node_name ?n2 = ''DisplayLatex''"
    by simp_all
  from click_target_inside_span [where n = ?n1 and view = ?v1 and cl = "()" and b = ?b, OF c1 r1,
      THEN conjunct1, rule_format, OF nm1] s1
  have a: "\<exists>d. widgets (enter ?v1 () ?n1 ?b) = [d] \<and>
        deco_from d = 18 \<and> deco_to d = 32 \<and> pos (deco_widget (deco_value d)) = 19 \<and>
        deco_from d < pos (deco_widget (deco_value d)) \<and> pos (deco_widget (deco_value d)) < deco_to d"
    by auto
  from click_target_inside_span [where n = ?n2 and view = ?v2 and cl = "()" and b = ?b, OF c2 r2,
      THEN conjunct2, rule_format, OF conjI, OF nm2 s2]
  have b: "\<exists>d. widgets (enter ?v2 () ?n2 ?b) = [d] \<and>
        deco_from d = 3 \<and> deco_to d = 23 \<and> pos (deco_widget (deco_value d)) = 5 \<and>
        deco_from d < pos (deco_widget (deco_value d)) \<and> pos (deco_widget (deco_value d)) < deco_to d"
    by auto
  from a b show ?thesis by blast
qed

text \<open>
  Claim C10. Let the selection hold an empty range at \<open>p\<close> (a second cursor), and no other
  range overlap the formula span. Then the span is left undecorated exactly when the primary
  cursor lies in \<open>[from, to]\<close>, ends included, or \<open>from < p < to\<close>: a second
  cursor at \<open>from\<close> or at \<open>to\<close> leaves the span decorated, the primary cursor there
  does not.
\<close>

theorem secondary_cursor_strict:
  fixes b :: "('c, 'e) builder"
  assumes span: "node_name n = ''InlineLatex'' \<or>
      (node_name n = ''DisplayLatex'' \<and>
       display_exec (sliceString (doc view) (node_from n) (node_to n)) \<noteq> None)"
    and sel: "ranges (selection view) = rs1 @ [\<lparr>anchor = p, head = p\<rparr>] @ rs2"
    and others: "\<forall>r\<in>set (rs1 @ rs2). \<not> (sel_from r < node_to n \<and> sel_to r > node_from n)"
  shows "(widgets (enter view cl n b) = widgets b) \<longleftrightarrow>
         (node_from n \<le> head (main (selection view)) \<and> head (main (selection view)) \<le> node_to n)
         \<or> (node_from n < p \<and> p < node_to n)"
proof -
  have ov: "(\<exists>r\<in>set (ranges (selection view)). sel_from r < node_to n \<and> sel_to r > node_from n)
      \<longleftrightarrow> (node_from n < p \<and> p < node_to n)"
    using others by (auto simp: sel sel_from_def sel_to_def)
  from span show ?thesis
  proof
    assume "node_name n = ''InlineLatex''"
    then show ?thesis by (simp add: enter_inline_widgets ov)
  next
    assume "node_name n = ''DisplayLatex'' \<and>
       display_exec (sliceString (doc view) (node_from n) (node_to n)) \<noteq> None"
    then show ?thesis by (auto simp: enter_display_widgets ov)
  qed
qed

theorem secondary_cursor_strict_witness:
  "widgets (enter (two_cursor_view ''ab $x$ cd'' 0 3) ()
      \<lparr>node_name = ''InlineLatex'', node_from = 3, node_to = 6\<rparr>
      \<lparr>widgets = [], inlineCount = 0, displayCount = 0, console = ([] :: unit console)\<rparr>) \<noteq> []
   \<and> widgets (enter (two_cursor_view ''ab $x$ cd'' 0 6) ()
      \<lparr>node_name = ''InlineLatex'', node_from = 3, node_to = 6\<rparr>
      \<lparr>widgets = [], inlineCount = 0, displayCount = 0, console = ([] :: unit console)\<rparr>) \<noteq> []
   \<and> widgets (enter (two_cursor_view ''ab $x$ cd'' 0 4) ()
      \<lparr>node_name = ''InlineLatex'', node_from = 3, node_to = 6\<rparr>
      \<lparr>widgets = [], inlineCount = 0, displayCount = 0, console = ([] :: unit console)\<rparr>) = []
   \<and> widgets (enter (two_cursor_view ''ab $x$ cd'' 3 0) ()
      \<lparr>node_name = ''InlineLatex'', node_from = 3, node_to = 6\<rparr>
      \<lparr>widgets = [], inlineCount = 0, displayCount = 0, console = ([] :: unit console)\<rparr>) = []
   \<and> widgets (enter (two_cursor_view ''ab $x$ cd'' 6 0) ()
      \<lparr>node_name = ''InlineLatex'', node_from = 3, node_to = 6\<rparr>
      \<lparr>widgets = [], inlineCount = 0, displayCount = 0, console = ([] :: unit console)\<rparr>) = []"
proof -
  let ?b = "\<lparr>widgets = [], inlineCount = 0, displayCount = 0, console = ([] :: unit console)\<rparr>
              :: (unit, unit) builder"
  let ?n = "\<lparr>node_name = ''InlineLatex'', node_from = 3, node_to = 6\<rparr>"
  have w: "(widgets (enter (two_cursor_view ''ab $x$ cd'' c p) () ?n ?b) = []) \<longleftrightarrow>
           (3 \<le> c \<and> c \<le> 6) \<or> (3 < p \<and> p < 6)" if "c \<le> 3 \<or> 6 \<le> c" for c p
    using that
      secondary_cursor_strict [where n = ?n and view = "two_cursor_view ''ab $x$ cd'' c p"
        and cl = "()" and b = ?b and ?rs1.0 = "[\<lparr>anchor = c, head = c\<rparr>]" and p = p and ?rs2.0 = "[]"]
    by (auto simp: two_cursor_view_def sel_from_def sel_to_def)
  have "widgets (enter (two_cursor_view ''ab $x$ cd'' 0 3) () ?n ?b) \<noteq> []"
    using w [of 0 3] by simp
  moreover have "widgets (enter (two_cursor_view ''ab $x$ cd'' 0 6) () ?n ?b) \<noteq> []"
    using w [of 0 6] by simp
  moreover have "widgets (enter (two_cursor_view ''ab $x$ cd'' 0 4) () ?n ?b) = []"
    using w [of 0 4] by simp
  moreover have "widgets (enter (two_cursor_view ''ab $x$ cd'' 3 0) () ?n ?b) = []"
    using w [of 3 0] by simp
  moreover have "widgets (enter (two_cursor_view ''ab $x$ cd'' 6 0) () ?n ?b) = []"
    using w [of 6 0] by simp
  ultimately show ?thesis by blast
qed

section \<open>Properties of the widgets\<close>

text \<open>
  Claim C6. Two widgets of the same kind are equal under \<open>eq\<close> exactly when their
  formulas are the same, whatever their click targets.
\<close>

theorem widget_eq_iff_formula:
  "is_inline w1 = is_inline w2 \<Longrightarrow> widget_eq w1 w2 \<longleftrightarrow> formula w1 = formula w2"
  by (cases w1; cases w2) (auto simp: InlineLatexWidget_eq_def DisplayLatexWidget_eq_def)

theorem widget_eq_iff_formula_witness:
  "widget_eq (InlineLatexWidget ''x^2'' () 4) (InlineLatexWidget ''x^2'' () 90)
   \<and> \<not> widget_eq (InlineLatexWidget ''x^2'' () 4) (InlineLatexWidget ''x^3'' () 4)
   \<and> widget_eq (DisplayLatexWidget ''x^2'' () 5) (DisplayLatexWidget ''x^2'' () 91)
   \<and> \<not> widget_eq (DisplayLatexWidget ''x^2'' () 5) (DisplayLatexWidget ''y'' () 5)"
  using widget_eq_iff_formula [of "InlineLatexWidget ''x^2'' () 4" "InlineLatexWidget ''x^2'' () 90"]
    widget_eq_iff_formula [of "InlineLatexWidget ''x^2'' () 4" "InlineLatexWidget ''x^3'' () 4"]
    widget_eq_iff_formula [of "DisplayLatexWidget ''x^2'' () 5" "DisplayLatexWidget ''x^2'' () 91"]
    widget_eq_iff_formula [of "DisplayLatexWidget ''x^2'' () 5" "DisplayLatexWidget ''y'' () 5"]
  by simp

text \<open>
  Claim C3, as amended. When the typesetting call throws, \<open>toDOM\<close> returns an element whose
  only child is the text \<open>$formula$\<close> (inline) or \<open>$$formula$$\<close> (display), whatever the
  call had written before, and whose classes include \<open>sb-latex-error\<close>; the exception is
  written to the console. \<open>toDOM\<close> returns an element for every widget and every
  typesetting call: no exception leaves it. When the call returns without throwing,
  \<open>toDOM\<close> returns what the call rendered, with the click listener, and writes nothing to
  the console.
\<close>

theorem render_failure_fallback:
  "(snd (katex f (set_className ''sb-latex-inline'' (createElement ''span''))
            \<lparr>displayMode = False, throwOnError = False, errorColor = ''#f44336''\<rparr>) = Some err \<longrightarrow>
      (\<exists>el. toDOM katex (InlineLatexWidget f c p) = Inr (el, [(Error, KaTeXRenderingError err)]) \<and>
            childNodes el = [TextNode (''$'' @ f @ ''$'')] \<and>
            ''sb-latex-error'' \<in> set (classList el)))
   \<and> (snd (katex f (set_className ''sb-latex-katex-output'' (createElement ''div''))
            \<lparr>displayMode = True, throwOnError = False, errorColor = ''#f44336''\<rparr>) = Some err \<longrightarrow>
      (\<exists>el. toDOM katex (DisplayLatexWidget f c p) = Inr (el, [(Error, KaTeXRenderingError err)]) \<and>
            childNodes el = [TextNode (''$$'' @ f @ ''$$'')] \<and>
            ''sb-latex-error'' \<in> set (classList el)))
   \<and> (\<exists>r. toDOM katex w = Inr r)
   \<and> (katex f (set_className ''sb-latex-inline'' (createElement ''span''))
            \<lparr>displayMode = False, throwOnError = False, errorColor = ''#f44336''\<rparr> = (rendered, None) \<longrightarrow>
        toDOM katex (InlineLatexWidget f c p) = Inr (addEventListener ''click'' rendered, []))
   \<and> (katex f (set_className ''sb-latex-katex-output'' (createElement ''div''))
            \<lparr>displayMode = True, throwOnError = False, errorColor = ''#f44336''\<rparr> = (rendered, None) \<longrightarrow>
        toDOM katex (DisplayLatexWidget f c p) =
          Inr (addEventListener ''click''
                 (appendChild rendered (set_className ''sb-latex-display'' (createElement ''div''))), []))"
proof (intro conjI impI)
  assume "snd (katex f (set_className ''sb-latex-inline'' (createElement ''span''))
            \<lparr>displayMode = False, throwOnError = False, errorColor = ''#f44336''\<rparr>) = Some err"
  then show "\<exists>el. toDOM katex (InlineLatexWidget f c p) = Inr (el, [(Error, KaTeXRenderingError err)]) \<and>
            childNodes el = [TextNode (''$'' @ f @ ''$'')] \<and>
            ''sb-latex-error'' \<in> set (classList el)"
    by (auto simp: InlineLatexWidget_toDOM_def Let_def addEventListener_def classList_add_def
        set_textContent_def split: prod.splits)
next
  assume "snd (katex f (set_className ''sb-latex-katex-output'' (createElement ''div''))
            \<lparr>displayMode = True, throwOnError = False, errorColor = ''#f44336''\<rparr>) = Some err"
  then show "\<exists>el. toDOM katex (DisplayLatexWidget f c p) = Inr (el, [(Error, KaTeXRenderingError err)]) \<and>
            childNodes el = [TextNode (''$$'' @ f @ ''$$'')] \<and>
            ''sb-latex-error'' \<in> set (classList el)"
    by (auto simp: DisplayLatexWidget_toDOM_def Let_def addEventListener_def classList_add_def
        set_textContent_def split: prod.splits)
next
  show "\<exists>r. toDOM katex w = Inr r"
    by (cases w) (simp_all add: InlineLatexWidget_toDOM_def DisplayLatexWidget_toDOM_def Let_def
        split: prod.splits option.splits)
next
  assume "katex f (set_className ''sb-latex-inline'' (createElement ''span''))
            \<lparr>displayMode = False, throwOnError = False, errorColor = ''#f44336''\<rparr> = (rendered, None)"
  then show "toDOM katex (InlineLatexWidget f c p) = Inr (addEventListener ''click'' rendered, [])"
    by (simp add: InlineLatexWidget_toDOM_def Let_def)
next
  assume "katex f (set_className ''sb-latex-katex-output'' (createElement ''div''))
            \<lparr>displayMode = True, throwOnError = False, errorColor = ''#f44336''\<rparr> = (rendered, None)"
  then show "toDOM katex (DisplayLatexWidget f c p) =
          Inr (addEventListener ''click''
                 (appendChild rendered (set_className ''sb-latex-display'' (createElement ''div''))), [])"
    by (simp add: DisplayLatexWidget_toDOM_def Let_def)
qed

theorem render_failure_fallback_witness:
  "toDOM throwing_katex (InlineLatexWidget ''{'' () 4) =
     Inr (Element ''span'' [''sb-latex-inline'', ''sb-latex-error''] [TextNode ''${$''] [''click''],
          [(Error, KaTeXRenderingError ''ParseError'')])
   \<and> toDOM throwing_katex (DisplayLatexWidget ''{'' () 5) =
     Inr (Element ''div'' [''sb-latex-display'', ''sb-latex-error''] [TextNode ''$${$$''] [''click''],
          [(Error, KaTeXRenderingError ''ParseError'')])
   \<and> toDOM throwing_katex (InlineLatexWidget ''x'' () 4) =
     Inr (Element ''span'' [''sb-latex-inline''] [ElementNode (Element ''span'' [] [] [])] [''click''],
          [])
   \<and> toDOM throwing_katex (DisplayLatexWidget ''x'' () 5) =
     Inr (Element ''div'' [''sb-latex-display'']
            [ElementNode (Element ''div'' [''sb-latex-katex-output'']
               [ElementNode (Element ''span'' [] [] [])] [])] [''click''],
          [])"
proof -
  have i: "snd (throwing_katex ''{'' (set_className ''sb-latex-inline'' (createElement ''span''))
            \<lparr>displayMode = False, throwOnError = False, errorColor = ''#f44336''\<rparr>) = Some ''ParseError''"
    and d: "snd (throwing_katex ''{'' (set_className ''sb-latex-katex-output'' (createElement ''div''))
            \<lparr>displayMode = True, throwOnError = False, errorColor = ''#f44336''\<rparr>) = Some ''ParseError''"
    by (simp_all add: throwing_katex_def)
  have i': "throwing_katex ''x'' (set_className ''sb-latex-inline'' (createElement ''span''))
            \<lparr>displayMode = False, throwOnError = False, errorColor = ''#f44336''\<rparr> =
        (Element ''span'' [''sb-latex-inline''] [ElementNode (Element ''span'' [] [] [])] [], None)"
    and d': "throwing_katex ''x'' (set_className ''sb-latex-katex-output'' (createElement ''div''))
            \<lparr>displayMode = True, throwOnError = False, errorColor = ''#f44336''\<rparr> =
        (Element ''div'' [''sb-latex-katex-output''] [ElementNode (Element ''span'' [] [] [])] [], None)"
    by (simp_all add: throwing_katex_def createElement_def set_className_def appendChild_def)
  from render_failure_fallback [where katex = throwing_katex and f = "''{''" and err = "''ParseError''"
      and c = "()" and p = 4, THEN conjunct1, rule_format, OF i]
  obtain el1 where e1: "toDOM throwing_katex (InlineLatexWidget ''{'' () 4) =
      Inr (el1, [(Error, KaTeXRenderingError ''ParseError'')])"
    by blast
  from render_failure_fallback [where katex = throwing_katex and f = "''{''" and err = "''ParseError''"
      and c = "()" and p = 5, THEN conjunct2, THEN conjunct1, rule_format, OF d]
  obtain el2 where e2: "toDOM throwing_katex (DisplayLatexWidget ''{'' () 5) =
      Inr (el2, [(Error, KaTeXRenderingError ''ParseError'')])"
    by blast
  from e1 have "el1 = Element ''span'' [''sb-latex-inline'', ''sb-latex-error''] [TextNode ''${$''] [''click'']"
    by (simp add: InlineLatexWidget_toDOM_def throwing_katex_def Let_def createElement_def
        set_className_def appendChild_def set_textContent_def classList_add_def addEventListener_def)
  moreover from e2 have "el2 = Element ''div'' [''sb-latex-display'', ''sb-latex-error''] [TextNode ''$${$$''] [''click'']"
    by (simp add: DisplayLatexWidget_toDOM_def throwing_katex_def Let_def createElement_def
        set_className_def appendChild_def set_textContent_def classList_add_def addEventListener_def)
  moreover have "toDOM throwing_katex (InlineLatexWidget ''x'' () 4) =
     Inr (Element ''span'' [''sb-latex-inline''] [ElementNode (Element ''span'' [] [] [])] [''click''],
          [])"
    using render_failure_fallback [where katex = throwing_katex and f = "''x''" and c = "()" and p = 4,
        THEN conjunct2, THEN conjunct2, THEN conjunct2, THEN conjunct1, rule_format, OF i']
    by (simp add: addEventListener_def)
  moreover have "toDOM throwing_katex (DisplayLatexWidget ''x'' () 5) =
     Inr (Element ''div'' [''sb-latex-display'']
            [ElementNode (Element ''div'' [''sb-latex-katex-output'']
               [ElementNode (Element ''span'' [] [] [])] [])] [''click''],
          [])"
    using render_failure_fallback [where katex = throwing_katex and f = "''x''" and c = "()" and p = 5,
        THEN conjunct2, THEN conjunct2, THEN conjunct2, THEN conjunct2, rule_format, OF d']
    by (simp add: addEventListener_def appendChild_def set_className_def createElement_def)
  ultimately show ?thesis using e1 e2 by simp
qed

text \<open>
  The call is made with \<open>throwOnError: false\<close>. With a typesetting call that honours the
  option, the formula \<open>{\<close> gives a widget with the call's own error output: no raw text,
  no \<open>sb-latex-error\<close>, nothing on the console.
\<close>

theorem lenient_typesetter_counterexample:
  "toDOM lenient_katex (InlineLatexWidget ''{'' () 4) =
     Inr (Element ''span'' [''sb-latex-inline'']
            [ElementNode (Element ''span'' [''katex-error''] [] [])] [''click''],
          [])
   \<and> toDOM lenient_katex (DisplayLatexWidget ''{'' () 5) =
     Inr (Element ''div'' [''sb-latex-display'']
            [ElementNode (Element ''div'' [''sb-latex-katex-output'']
               [ElementNode (Element ''span'' [''katex-error''] [] [])] [])] [''click''],
          [])"
  by (simp add: InlineLatexWidget_toDOM_def DisplayLatexWidget_toDOM_def lenient_katex_def Let_def
      createElement_def set_className_def appendChild_def addEventListener_def)

section \<open>Properties of the plugins\<close>

lemma rebuilds_append: "rebuilds (a @ b) = rebuilds a + rebuilds b"
  by (simp add: rebuilds_def)

lemma rebuilds_isNodeInSelection:
  "isNodeInSelection rs f t = (x, out) \<Longrightarrow> rebuilds out = 0"
  by (induction rs) (auto simp: rebuilds_def split: if_splits)

lemma rebuilds_enter: "rebuilds (console (enter view cl n b)) = rebuilds (console b)"
  by (auto simp: enter_def Let_def rebuilds_append split: prod.splits option.splits
      dest: rebuilds_isNodeInSelection) (simp_all add: rebuilds_def)

lemma rebuilds_foldl_enter:
  "rebuilds (console (foldl (\<lambda>b node. enter view cl node b) b ns)) = rebuilds (console b)"
  by (induction ns arbitrary: b) (simp_all add: rebuilds_enter)

lemma rebuilds_foldl_ranges:
  "rebuilds (console (foldl (\<lambda>b (f, t). foldl (\<lambda>b node. enter view cl node b) b (tree_iterate view f t)) b rs))
     = rebuilds (console b)"
  by (induction rs arbitrary: b) (auto simp: rebuilds_foldl_enter)

lemma rebuilds_run_builder: "rebuilds (console (run_builder view cl)) = 0"
  by (simp add: run_builder_def rebuilds_foldl_ranges) (simp add: rebuilds_def)

lemma rebuilds_createLatexDecorations:
  "createLatexDecorations view cl = (decos, out) \<Longrightarrow> rebuilds out = 1"
  using rebuilds_run_builder [of view cl]
  by (auto simp: createLatexDecorations_def Let_def rebuilds_append) (simp add: rebuilds_def)

lemma part0_constructor_fields:
  "p0_listeners (part0_constructor cl view) = installed_listeners"
  "p0_cleanup (part0_constructor cl view) = Some installed_listeners"
  "p0_timers (part0_constructor cl view) = []"
  "p0_nextTimer (part0_constructor cl view) = 1"
  "p0_isDragging (part0_constructor cl view) = False"
  "p0_view (part0_constructor cl view) = view"
  by (simp_all add: part0_constructor_def installed_listeners_def Let_def split: prod.splits)

lemma dispatchEvent_installed:
  assumes "p0_listeners s = installed_listeners"
  shows "dispatchEvent ''mousedown'' s = handleMouseDown s"
    and "dispatchEvent ''mouseup'' s = handleMouseUp s"
    and "dispatchEvent ''touchstart'' s = handleTouchStart s"
    and "dispatchEvent ''touchend'' s = handleTouchEnd s"
    and "dispatchEvent ''mousemove'' s = s"
    and "dispatchEvent ''mouseleave'' s = s"
  using assms by (simp_all add: dispatchEvent_def installed_listeners_def)

lemma dispatchEvent_no_listeners:
  "p0_listeners s = [] \<Longrightarrow> dispatchEvent ty s = s"
  by (simp add: dispatchEvent_def)

lemma part0_update_empty: "part0_update cl (empty_update v) s = s"
  by (simp add: part0_update_def empty_update_def)

lemma part0_update_keeps:
  "p0_listeners (part0_update cl u s) = p0_listeners s"
  "p0_cleanup (part0_update cl u s) = p0_cleanup s"
  "p0_timers (part0_update cl u s) = p0_timers s"
  "p0_nextTimer (part0_update cl u s) = p0_nextTimer s"
  "p0_isDragging (part0_update cl u s) = p0_isDragging s"
  "p0_view (part0_update cl u s) = p0_view s"
  by (simp_all add: part0_update_def Let_def split: prod.splits)

lemma rebuildCallback_eq:
  fixes s :: "('c, 'e) part0_plugin"
  shows "rebuildCallback cl s =
     s\<lparr>p0_decorations := fst (createLatexDecorations (p0_view s) cl :: 'c DecoRange list \<times> 'e console),
       p0_console := p0_console s @
         snd (createLatexDecorations (p0_view s) cl :: 'c DecoRange list \<times> 'e console)\<rparr>"
  by (simp add: rebuildCallback_def part0_update_empty split: prod.splits)

lemma rebuilds_snd_createLatexDecorations:
  "rebuilds (snd (createLatexDecorations view cl :: 'c DecoRange list \<times> 'e console)) = 1"
  using rebuilds_createLatexDecorations [of view cl "fst (createLatexDecorations view cl :: 'c DecoRange list \<times> 'e console)"
      "snd (createLatexDecorations view cl :: 'c DecoRange list \<times> 'e console)"]
  by simp

lemma destroy_listeners:
  assumes "p0_cleanup s = Some installed_listeners"
    and "p0_listeners s = installed_listeners \<or> p0_listeners s = []"
  shows "p0_listeners (destroy s) = []"
  using assms by (auto simp: destroy_def removeEventListener_def installed_listeners_def)

lemma destroy_keeps:
  "p0_cleanup (destroy s) = p0_cleanup s"
  "p0_timers (destroy s) = p0_timers s"
  "p0_nextTimer (destroy s) = p0_nextTimer s"
  "p0_isDragging (destroy s) = p0_isDragging s"
  "p0_console (destroy s) = p0_console s"
  "p0_decorations (destroy s) = p0_decorations s"
  "p0_view (destroy s) = p0_view s"
  by (simp_all add: destroy_def split: option.splits)

lemma part0_inv_constructor: "part0_inv (part0_constructor cl view)"
  by (simp add: part0_inv_def part0_constructor_fields)

lemma part0_inv_handlers:
  assumes "part0_inv s"
  shows "part0_inv (handleMouseDown s)" "part0_inv (handleMouseUp s)"
    "part0_inv (handleTouchStart s)" "part0_inv (handleTouchEnd s)"
  using assms
  by (auto simp: part0_inv_def handleMouseDown_def handleMouseUp_def handleTouchStart_def
      handleTouchEnd_def Let_def)

lemma handlers_keep_listeners:
  "p0_listeners (handleMouseDown s) = p0_listeners s"
  "p0_listeners (handleMouseUp s) = p0_listeners s"
  "p0_listeners (handleTouchStart s) = p0_listeners s"
  "p0_listeners (handleTouchEnd s) = p0_listeners s"
  by (simp_all add: handleMouseDown_def handleMouseUp_def handleTouchStart_def
      handleTouchEnd_def Let_def)

lemma part0_inv_dispatch:
  assumes "part0_inv s"
  shows "part0_inv (dispatchEvent ''mousedown'' s)" "part0_inv (dispatchEvent ''mouseup'' s)"
    "part0_inv (dispatchEvent ''touchstart'' s)" "part0_inv (dispatchEvent ''touchend'' s)"
    "part0_inv (dispatchEvent ''mousemove'' s)" "part0_inv (dispatchEvent ''mouseleave'' s)"
proof -
  from assms have "p0_listeners s = installed_listeners \<or> p0_listeners s = []"
    by (simp add: part0_inv_def)
  then show "part0_inv (dispatchEvent ''mousedown'' s)" "part0_inv (dispatchEvent ''mouseup'' s)"
    "part0_inv (dispatchEvent ''touchstart'' s)" "part0_inv (dispatchEvent ''touchend'' s)"
    "part0_inv (dispatchEvent ''mousemove'' s)" "part0_inv (dispatchEvent ''mouseleave'' s)"
    using assms
    by (auto simp: dispatchEvent_installed dispatchEvent_no_listeners part0_inv_handlers)
qed

lemma dispatch_keeps_listeners:
  assumes "p0_listeners s = installed_listeners \<or> p0_listeners s = []"
  shows "p0_listeners (dispatchEvent ''mousedown'' s) = p0_listeners s"
    "p0_listeners (dispatchEvent ''mouseup'' s) = p0_listeners s"
    "p0_listeners (dispatchEvent ''touchstart'' s) = p0_listeners s"
    "p0_listeners (dispatchEvent ''touchend'' s) = p0_listeners s"
    "p0_listeners (dispatchEvent ''mousemove'' s) = p0_listeners s"
    "p0_listeners (dispatchEvent ''mouseleave'' s) = p0_listeners s"
  using assms
  by (auto simp: dispatchEvent_installed dispatchEvent_no_listeners handlers_keep_listeners)

lemma part0_inv_step: "part0_inv s \<Longrightarrow> part0_inv (part0_step cl s e)"
proof (cases e)
  case (TimerFires i)
  assume "part0_inv s"
  then show ?thesis
    by (auto simp: TimerFires part0_inv_def rebuildCallback_eq clearTimeout_def)
next
  case (ViewUpdated u)
  assume "part0_inv s"
  then show ?thesis
    by (simp add: ViewUpdated part0_inv_def part0_update_keeps)
next
  case Destroy
  assume "part0_inv s"
  then show ?thesis
    by (simp add: Destroy part0_inv_def destroy_keeps destroy_listeners)
qed (simp_all add: part0_inv_dispatch)

lemma part0_inv_run: "part0_inv s \<Longrightarrow> part0_inv (part0_run cl s es)"
  unfolding part0_run_def by (induction es arbitrary: s) (simp_all add: part0_inv_step)

lemma part0_step_listeners:
  assumes "part0_inv s" "e \<noteq> Destroy"
  shows "p0_listeners (part0_step cl s e) = p0_listeners s"
proof -
  from assms(1) have l: "p0_listeners s = installed_listeners \<or> p0_listeners s = []"
    by (simp add: part0_inv_def)
  show ?thesis
    using assms(2) l
    by (cases e) (simp_all add: dispatch_keeps_listeners rebuildCallback_eq part0_update_keeps)
qed

lemma part0_run_listeners:
  assumes "part0_inv s" "Destroy \<notin> set es"
  shows "p0_listeners (part0_run cl s es) = p0_listeners s"
  using assms unfolding part0_run_def
proof (induction es arbitrary: s)
  case Nil
  then show ?case by simp
next
  case (Cons e es)
  then have "p0_listeners (foldl (part0_step cl) (part0_step cl s e) es) = p0_listeners (part0_step cl s e)"
    by (intro Cons.IH) (simp_all add: part0_inv_step)
  with Cons.prems show ?case using part0_step_listeners [of s e cl] by auto
qed

lemma latex_update_empty: "\<not> lp_isDragging t \<Longrightarrow> latex_update cl (empty_update v) t = t"
  by (simp add: latex_update_def empty_update_def)

lemma latex_update_keeps:
  "lp_timers (latex_update cl u t) = lp_timers t"
  "lp_nextTimer (latex_update cl u t) = lp_nextTimer t"
  "lp_dragEndTimeout (latex_update cl u t) = lp_dragEndTimeout t"
  "lp_isDragging (latex_update cl u t) = lp_isDragging t"
  "lp_view (latex_update cl u t) = lp_view t"
  by (simp_all add: latex_update_def Let_def split: prod.splits)

lemma dragEndCallback_eq:
  "dragEndCallback cl t =
     t\<lparr>lp_console := lp_console t @ [(Log, DragOperationEnded)], lp_isDragging := False\<rparr>"
  by (simp add: dragEndCallback_def Let_def latex_update_empty)

lemma handleDragEnd_timers:
  assumes "latex_inv t"
  shows "lp_timers (handleDragEnd t) = [(lp_nextTimer t, 200)]"
    and "lp_dragEndTimeout (handleDragEnd t) = Some (lp_nextTimer t)"
    and "lp_nextTimer (handleDragEnd t) = lp_nextTimer t + 1"
    and "lp_isDragging (handleDragEnd t) = lp_isDragging t"
    and "lp_console (handleDragEnd t) = lp_console t"
    and "lp_decorations (handleDragEnd t) = lp_decorations t"
  using assms
  by (auto simp: latex_inv_def handleDragEnd_def Let_def clearTimeout_def)

lemma latex_inv_handleDragEnd: "latex_inv t \<Longrightarrow> latex_inv (handleDragEnd t)"
  by (simp add: latex_inv_def [of "handleDragEnd t"] handleDragEnd_timers) (simp add: latex_inv_def)

lemma latex_inv_constructor: "latex_inv (latex_constructor cl view)"
  by (simp add: latex_inv_def latex_constructor_def split: prod.splits)

lemma latex_inv_step: "latex_inv t \<Longrightarrow> latex_inv (latex_step cl t e)"
proof (cases e)
  case (TimerFires i)
  assume "latex_inv t"
  then show ?thesis
    by (auto simp: TimerFires latex_inv_def dragEndCallback_eq clearTimeout_def)
next
  case (ViewUpdated u)
  assume "latex_inv t"
  then show ?thesis
    by (simp add: ViewUpdated latex_inv_def latex_update_keeps)
next
  case MouseUp
  assume "latex_inv t"
  then show ?thesis by (simp add: MouseUp latex_inv_handleDragEnd)
next
  case MouseLeave
  assume "latex_inv t"
  then show ?thesis by (simp add: MouseLeave latex_inv_handleDragEnd)
qed (simp_all add: latex_inv_def)

lemma latex_inv_run: "latex_inv t \<Longrightarrow> latex_inv (latex_run cl t es)"
  unfolding latex_run_def by (induction es arbitrary: t) (simp_all add: latex_inv_step)



lemma part0_pointer_after_destroy:
  assumes "p0_listeners s = []" "is_pointer_event e"
  shows "part0_step cl s e = s"
  using assms by (cases e) (simp_all add: dispatchEvent_no_listeners)

lemma length_clearTimeout:
  "i \<in> fst ` set ts \<Longrightarrow> length (clearTimeout i ts) < length ts"
  unfolding clearTimeout_def
  by (auto intro: length_filter_less)

lemma part0_after_destroy_step:
  fixes s :: "('c, 'e) part0_plugin"
  assumes "p0_listeners s = []" "is_pointer_event e \<or> (\<exists>i. e = TimerFires i)"
  shows "p0_listeners (part0_step cl s e) = [] \<and>
         rebuilds (p0_console (part0_step cl s e)) + length (p0_timers (part0_step cl s e))
           \<le> rebuilds (p0_console s) + length (p0_timers s)"
  using assms(2)
proof
  assume "is_pointer_event e"
  with assms(1) show ?thesis by (simp add: part0_pointer_after_destroy)
next
  assume "\<exists>i. e = TimerFires i"
  then obtain i where e: "e = TimerFires i" by blast
  show ?thesis
  proof (cases "i \<in> fst ` set (p0_timers s)")
    case True
    then have "length (clearTimeout i (p0_timers s)) < length (p0_timers s)"
      by (rule length_clearTimeout)
    with True assms(1) show ?thesis
      by (simp add: e rebuildCallback_eq rebuilds_append rebuilds_snd_createLatexDecorations)
  next
    case False
    with assms(1) show ?thesis by (simp add: e)
  qed
qed

lemma part0_after_destroy_run:
  fixes s :: "('c, 'e) part0_plugin"
  assumes "p0_listeners s = []" "\<forall>e\<in>set es. is_pointer_event e \<or> (\<exists>i. e = TimerFires i)"
  shows "rebuilds (p0_console (part0_run cl s es)) + length (p0_timers (part0_run cl s es))
           \<le> rebuilds (p0_console s) + length (p0_timers s)"
  using assms unfolding part0_run_def
proof (induction es arbitrary: s)
  case Nil
  then show ?case by simp
next
  case (Cons e es)
  from Cons.prems have st: "p0_listeners (part0_step cl s e) = [] \<and>
         rebuilds (p0_console (part0_step cl s e)) + length (p0_timers (part0_step cl s e))
           \<le> rebuilds (p0_console s) + length (p0_timers s)"
    by (intro part0_after_destroy_step) simp_all
  from Cons.prems st have "rebuilds (p0_console (foldl (part0_step cl) (part0_step cl s e) es)) +
      length (p0_timers (foldl (part0_step cl) (part0_step cl s e) es))
      \<le> rebuilds (p0_console (part0_step cl s e)) + length (p0_timers (part0_step cl s e))"
    by (intro Cons.IH) simp_all
  with st show ?case by simp
qed

lemma part0_pointer_run_after_destroy:
  assumes "p0_listeners s = []" "\<forall>e\<in>set es. is_pointer_event e"
  shows "part0_run cl s es = s"
  using assms unfolding part0_run_def
  by (induction es arbitrary: s) (simp_all add: part0_pointer_after_destroy)

lemma latex_constructor_fields:
  "lp_timers (latex_constructor cl view) = []"
  "lp_nextTimer (latex_constructor cl view) = 1"
  "lp_isDragging (latex_constructor cl view) = False"
  "lp_dragEndTimeout (latex_constructor cl view) = None"
  "lp_view (latex_constructor cl view) = view"
  by (simp_all add: latex_constructor_def split: prod.splits)

lemmas part0_eval = part0_run_def dispatchEvent_installed part0_constructor_fields
  handlers_keep_listeners handleMouseDown_def handleMouseUp_def handleTouchStart_def
  handleTouchEnd_def Let_def

lemma part0_drag_states:
  fixes s0 :: "('c, 'e) part0_plugin"
  assumes "s0 = part0_constructor cl view"
  shows "part0_run cl s0 [MouseDown] = s0\<lparr>p0_isDragging := True\<rparr>"
    and "part0_run cl s0 [MouseDown, MouseLeave] = s0\<lparr>p0_isDragging := True\<rparr>"
    and "part0_run cl s0 [MouseDown, MouseUp] =
           s0\<lparr>p0_isDragging := False, p0_timers := [(1, 50)], p0_nextTimer := 2\<rparr>"
    and "part0_run cl s0 [MouseDown, MouseUp, MouseDown, MouseUp] =
           s0\<lparr>p0_isDragging := False, p0_timers := [(1, 50), (2, 50)], p0_nextTimer := 3\<rparr>"
    and "part0_run cl s0 [MouseDown, MouseUp, Destroy] =
           s0\<lparr>p0_isDragging := False, p0_timers := [(1, 50)], p0_nextTimer := 2, p0_listeners := []\<rparr>"
  unfolding assms
  by (simp_all add: part0_eval destroy_def removeEventListener_def installed_listeners_def)


text \<open>
  Claim C8, as amended. In part_000, while the listeners are installed, every \<open>mousedown\<close>
  or \<open>touchstart\<close> puts the tracker in Dragging and every \<open>mouseup\<close> or \<open>touchend\<close>
  puts it in Idle; a pointer leaving is not an event the plugin listens to, and changes
  nothing. In latex.ts, \<open>mousedown\<close> puts the tracker in Idle and touch events are not
  listened to; a \<open>mousemove\<close> with a button pressed puts it in Dragging; a \<open>mouseup\<close> or
  a \<open>mouseleave\<close> while Dragging leaves it Dragging and schedules the 200 ms timer, as the
  only pending one, and when that timer fires the tracker is Idle.
\<close>

theorem drag_tracker_transitions:
  fixes cl :: 'c and p :: "('c, 'e) part0_plugin" and t :: "('c, 'e) latex_plugin"
  assumes "Destroy \<notin> set es" and "p = part0_run cl (part0_constructor cl view) es"
    and "t = latex_run cl (latex_constructor cl view') es'"
  shows "p0_isDragging (part0_step cl p MouseDown)
       \<and> p0_isDragging (part0_step cl p TouchStart)
       \<and> \<not> p0_isDragging (part0_step cl p MouseUp)
       \<and> \<not> p0_isDragging (part0_step cl p TouchEnd)
       \<and> part0_step cl p MouseLeave = p
       \<and> \<not> lp_isDragging (latex_step cl t MouseDown)
       \<and> latex_step cl t TouchStart = t
       \<and> latex_step cl t TouchEnd = t
       \<and> (b \<noteq> 0 \<longrightarrow> lp_isDragging (latex_step cl t (MouseMove b)))
       \<and> (lp_isDragging t \<and> (e = MouseUp \<or> e = MouseLeave) \<longrightarrow>
            lp_isDragging (latex_step cl t e) \<and>
            lp_timers (latex_step cl t e) = [(lp_nextTimer t, 200)] \<and>
            \<not> lp_isDragging (latex_step cl (latex_step cl t e) (TimerFires (lp_nextTimer t))))"
proof -
  have inv: "part0_inv p"
    unfolding assms(2) by (intro part0_inv_run part0_inv_constructor)
  have l: "p0_listeners p = installed_listeners"
    unfolding assms(2) using assms(1)
    by (simp add: part0_run_listeners part0_inv_constructor part0_constructor_fields)
  have tinv: "latex_inv t"
    unfolding assms(3) by (intro latex_inv_run latex_inv_constructor)
  have a: "p0_isDragging (part0_step cl p MouseDown)" "p0_isDragging (part0_step cl p TouchStart)"
    "\<not> p0_isDragging (part0_step cl p MouseUp)" "\<not> p0_isDragging (part0_step cl p TouchEnd)"
    "part0_step cl p MouseLeave = p"
    using l by (simp_all add: dispatchEvent_installed handleMouseDown_def handleTouchStart_def
        handleMouseUp_def handleTouchEnd_def Let_def)
  have b: "\<not> lp_isDragging (latex_step cl t MouseDown)" "latex_step cl t TouchStart = t"
    "latex_step cl t TouchEnd = t" "b \<noteq> 0 \<longrightarrow> lp_isDragging (latex_step cl t (MouseMove b))"
    by simp_all
  have c: "lp_isDragging (latex_step cl t e) \<and>
            lp_timers (latex_step cl t e) = [(lp_nextTimer t, 200)] \<and>
            \<not> lp_isDragging (latex_step cl (latex_step cl t e) (TimerFires (lp_nextTimer t)))"
    if "lp_isDragging t" "e = MouseUp \<or> e = MouseLeave"
  proof -
    from that have s: "latex_step cl t e = handleDragEnd t" by auto
    show ?thesis
      using that(1) tinv by (simp add: s handleDragEnd_timers dragEndCallback_eq)
  qed
  from a b c show ?thesis by blast
qed

theorem drag_tracker_transitions_witness:
  "p0_isDragging (part0_run () (part0_constructor () drag_view) [MouseDown] :: (unit, unit) part0_plugin)
   \<and> \<not> p0_isDragging (part0_run () (part0_constructor () drag_view) [MouseDown, MouseUp] :: (unit, unit) part0_plugin)
   \<and> p0_isDragging (part0_run () (part0_constructor () drag_view) [TouchStart] :: (unit, unit) part0_plugin)
   \<and> \<not> p0_isDragging (part0_run () (part0_constructor () drag_view) [TouchStart, TouchEnd] :: (unit, unit) part0_plugin)
   \<and> lp_isDragging (latex_run () (latex_constructor () drag_view) [MouseMove 1] :: (unit, unit) latex_plugin)
   \<and> lp_isDragging (latex_run () (latex_constructor () drag_view) [MouseMove 1, MouseLeave] :: (unit, unit) latex_plugin)
   \<and> \<not> lp_isDragging (latex_run () (latex_constructor () drag_view) [MouseMove 1, MouseLeave, TimerFires 1]
         :: (unit, unit) latex_plugin)"
proof -
  let ?s0 = "part0_constructor () drag_view :: (unit, unit) part0_plugin"
  let ?t0 = "latex_constructor () drag_view :: (unit, unit) latex_plugin"
  note T = drag_tracker_transitions [where cl = "()" and view = drag_view and view' = drag_view
      and ?'e = unit, OF _ refl refl]
  have a: "p0_isDragging (part0_run () ?s0 [MouseDown])" "p0_isDragging (part0_run () ?s0 [TouchStart])"
    using T [of "[]" "[]" 1 MouseUp] by (simp_all add: part0_run_def)
  have b: "\<not> p0_isDragging (part0_run () ?s0 [MouseDown, MouseUp])"
    using T [of "[MouseDown]" "[]" 1 MouseUp] by (simp add: part0_run_def)
  have c: "\<not> p0_isDragging (part0_run () ?s0 [TouchStart, TouchEnd])"
    using T [of "[TouchStart]" "[]" 1 MouseUp] by (simp add: part0_run_def)
  have d: "lp_isDragging (latex_run () ?t0 [MouseMove 1])"
    using T [of "[]" "[]" 1 MouseUp] by (simp add: latex_run_def)
  have n: "lp_nextTimer (latex_run () ?t0 [MouseMove 1]) = 1"
    by (simp add: latex_run_def latex_constructor_fields)
  have r1: "latex_run () ?t0 [MouseMove 1, MouseLeave] =
      latex_step () (latex_run () ?t0 [MouseMove 1]) MouseLeave"
    and r2: "latex_run () ?t0 [MouseMove 1, MouseLeave, TimerFires 1] =
      latex_step () (latex_step () (latex_run () ?t0 [MouseMove 1]) MouseLeave) (TimerFires 1)"
    by (simp_all add: latex_run_def)
  have nd: "Destroy \<notin> set []" by simp
  have "lp_isDragging (latex_step () (latex_run () ?t0 [MouseMove 1]) MouseLeave) \<and>
      \<not> lp_isDragging (latex_step () (latex_step () (latex_run () ?t0 [MouseMove 1]) MouseLeave)
          (TimerFires (lp_nextTimer (latex_run () ?t0 [MouseMove 1]))))"
    using T [OF nd, of "[MouseMove 1]" 1 MouseLeave] d by blast
  then have e: "lp_isDragging (latex_run () ?t0 [MouseMove 1, MouseLeave])"
    "\<not> lp_isDragging (latex_run () ?t0 [MouseMove 1, MouseLeave, TimerFires 1])"
    unfolding n r1 r2 by blast+
  from a b c d e show ?thesis by blast
qed

text \<open>
  In latex.ts a \<open>mousedown\<close> or a \<open>touchstart\<close> in Idle leaves the tracker Idle. In
  part_000 a pointer that leaves while Dragging leaves the tracker Dragging, and no timer
  is scheduled.
\<close>

theorem drag_tracker_counterexample:
  "\<not> lp_isDragging (latex_run () (latex_constructor () drag_view) [MouseDown] :: (unit, unit) latex_plugin)
   \<and> \<not> lp_isDragging (latex_run () (latex_constructor () drag_view) [TouchStart] :: (unit, unit) latex_plugin)
   \<and> p0_isDragging (part0_run () (part0_constructor () drag_view) [MouseDown, MouseLeave] :: (unit, unit) part0_plugin)
   \<and> p0_timers (part0_run () (part0_constructor () drag_view) [MouseDown, MouseLeave] :: (unit, unit) part0_plugin) = []"
  by (simp add: part0_drag_states [OF refl] part0_constructor_fields latex_run_def
      latex_constructor_fields)




text \<open>
  Claim C9, as amended. \<open>destroy\<close> in part_000 removes every listener the constructor
  added and leaves the pending timers pending. After it, pointer and touch events change
  nothing, and pointer, touch and timer events together cause at most as many rebuilds as
  there were timers pending.
\<close>

theorem destroy_removes_listeners:
  fixes cl :: 'c and p :: "('c, 'e) part0_plugin"
  assumes "p = part0_run cl (part0_constructor cl view) es"
  shows "p0_listeners (part0_step cl p Destroy) = []
       \<and> p0_timers (part0_step cl p Destroy) = p0_timers p
       \<and> (\<forall>es'. (\<forall>e\<in>set es'. is_pointer_event e) \<longrightarrow>
            part0_run cl (part0_step cl p Destroy) es' = part0_step cl p Destroy)
       \<and> (\<forall>es'. (\<forall>e\<in>set es'. is_pointer_event e \<or> (\<exists>i. e = TimerFires i)) \<longrightarrow>
            rebuilds (p0_console (part0_run cl (part0_step cl p Destroy) es'))
              \<le> rebuilds (p0_console p) + length (p0_timers p))"
proof -
  have inv: "part0_inv p"
    unfolding assms by (intro part0_inv_run part0_inv_constructor)
  then have l: "p0_listeners (destroy p) = []"
    by (simp add: part0_inv_def destroy_listeners)
  have a: "part0_run cl (destroy p) es' = destroy p" if "\<forall>e\<in>set es'. is_pointer_event e" for es'
    using l that by (rule part0_pointer_run_after_destroy)
  have b: "rebuilds (p0_console (part0_run cl (destroy p) es')) \<le> rebuilds (p0_console p) + length (p0_timers p)"
    if "\<forall>e\<in>set es'. is_pointer_event e \<or> (\<exists>i. e = TimerFires i)" for es'
    using part0_after_destroy_run [OF l that, of cl] by (simp add: destroy_keeps)
  from l a b show ?thesis by (simp add: destroy_keeps)
qed

theorem destroy_removes_listeners_witness:
  "p0_listeners (part0_run () (part0_constructor () drag_view) [MouseDown, MouseUp, Destroy]
       :: (unit, unit) part0_plugin) = []
   \<and> part0_run () (part0_constructor () drag_view)
       [MouseDown, MouseUp, Destroy, MouseDown, TouchStart, MouseUp] =
     (part0_run () (part0_constructor () drag_view) [MouseDown, MouseUp, Destroy]
       :: (unit, unit) part0_plugin)
   \<and> rebuilds (p0_console (part0_run () (part0_constructor () drag_view)
       [MouseDown, MouseUp, Destroy, MouseDown, MouseUp, TimerFires 1, TimerFires 2]
       :: (unit, unit) part0_plugin)) \<le>
     rebuilds (p0_console (part0_run () (part0_constructor () drag_view) [MouseDown, MouseUp]
       :: (unit, unit) part0_plugin)) + 1"
proof -
  let ?s0 = "part0_constructor () drag_view :: (unit, unit) part0_plugin"
  let ?p = "part0_run () ?s0 [MouseDown, MouseUp]"
  note T = destroy_removes_listeners [where cl = "()" and view = drag_view
      and es = "[MouseDown, MouseUp]" and ?'e = unit, OF refl]
  have r: "part0_run () ?s0 [MouseDown, MouseUp, Destroy] = part0_step () ?p Destroy"
    "part0_run () ?s0 [MouseDown, MouseUp, Destroy, MouseDown, TouchStart, MouseUp] =
       part0_run () (part0_step () ?p Destroy) [MouseDown, TouchStart, MouseUp]"
    "part0_run () ?s0 [MouseDown, MouseUp, Destroy, MouseDown, MouseUp, TimerFires 1, TimerFires 2] =
       part0_run () (part0_step () ?p Destroy) [MouseDown, MouseUp, TimerFires 1, TimerFires 2]"
    by (simp_all add: part0_run_def)
  have len: "length (p0_timers ?p) = 1"
    unfolding part0_drag_states [OF refl] by simp
  have a: "p0_listeners (part0_step () ?p Destroy) = []"
    using T by blast
  have b: "part0_run () (part0_step () ?p Destroy) [MouseDown, TouchStart, MouseUp] =
      part0_step () ?p Destroy"
    by (rule T [THEN conjunct2, THEN conjunct2, THEN conjunct1, rule_format]) auto
  have c: "rebuilds (p0_console (part0_run () (part0_step () ?p Destroy)
        [MouseDown, MouseUp, TimerFires 1, TimerFires 2])) \<le>
      rebuilds (p0_console ?p) + length (p0_timers ?p)"
    by (rule T [THEN conjunct2, THEN conjunct2, THEN conjunct2, rule_format]) auto
  have c': "rebuilds (p0_console (part0_run () (part0_step () ?p Destroy)
        [MouseDown, MouseUp, TimerFires 1, TimerFires 2])) \<le>
      rebuilds (p0_console ?p) + 1"
    using c unfolding len .
  from a b c' show ?thesis
    unfolding r by blast
qed

text \<open>
  A timer set before \<open>destroy\<close> is still pending after it, and rebuilds when it fires.
\<close>

theorem rebuild_after_destroy_counterexample:
  "p0_timers (part0_run () (part0_constructor () drag_view) [MouseDown, MouseUp, Destroy]
       :: (unit, unit) part0_plugin) = [(1, 50)]
   \<and> rebuilds (p0_console (part0_run () (part0_constructor () drag_view)
        [MouseDown, MouseUp, Destroy, TimerFires 1] :: (unit, unit) part0_plugin)) =
     rebuilds (p0_console (part0_run () (part0_constructor () drag_view)
        [MouseDown, MouseUp, Destroy] :: (unit, unit) part0_plugin)) + 1"
proof -
  let ?s0 = "part0_constructor () drag_view :: (unit, unit) part0_plugin"
  have r: "part0_run () ?s0 [MouseDown, MouseUp, Destroy, TimerFires 1] =
      part0_step () (part0_run () ?s0 [MouseDown, MouseUp, Destroy]) (TimerFires 1)"
    by (simp add: part0_run_def)
  show ?thesis
    unfolding r part0_drag_states [OF refl]
    by (simp add: rebuildCallback_eq rebuilds_append
        rebuilds_snd_createLatexDecorations clearTimeout_def)
qed

end
